theory Spec2Isabelle
  imports Main "HOL-Library.Word"
begin

section \<open>Data model of \<open>dxvk_instance.cpp\<close>\<close>

type_synonym u8 = "8 word"
type_synonym u16 = "16 word"
type_synonym u32 = "32 word"

text \<open>The Vulkan enumeration \<open>VkPhysicalDeviceType\<close>, in the order of its numeric values 0..4.\<close>

datatype VkPhysicalDeviceType =
    VK_PHYSICAL_DEVICE_TYPE_OTHER
  | VK_PHYSICAL_DEVICE_TYPE_INTEGRATED_GPU
  | VK_PHYSICAL_DEVICE_TYPE_DISCRETE_GPU
  | VK_PHYSICAL_DEVICE_TYPE_VIRTUAL_GPU
  | VK_PHYSICAL_DEVICE_TYPE_CPU

text \<open>The status codes \<open>vkEnumeratePhysicalDevices\<close> and \<open>vkCreateInstance\<close> can return.
  \<open>VK_INCOMPLETE\<close> is a non-error status that differs from \<open>VK_SUCCESS\<close>.\<close>

datatype VkResult =
    VK_SUCCESS
  | VK_INCOMPLETE
  | VK_ERROR_OUT_OF_HOST_MEMORY
  | VK_ERROR_OUT_OF_DEVICE_MEMORY
  | VK_ERROR_INITIALIZATION_FAILED
  | VK_ERROR_LAYER_NOT_PRESENT
  | VK_ERROR_EXTENSION_NOT_PRESENT
  | VK_ERROR_INCOMPATIBLE_DRIVER

record VkPhysicalDeviceProperties =
  apiVersion :: u32
  driverVersion :: u32
  vendorID :: u32
  deviceID :: u32
  deviceType :: VkPhysicalDeviceType
  deviceName :: string

text \<open>\<open>VK_LUID_SIZE\<close> bytes of identifier and a \<open>VkBool32\<close> validity flag (nonzero is true).\<close>

definition VK_LUID_SIZE :: nat where
  "VK_LUID_SIZE = 8"

record VkPhysicalDeviceVulkan11Properties =
  deviceLUID :: "u8 list"
  deviceLUIDValid :: u32

text \<open>A physical device as the driver reports it: the opaque handle together with what
  \<open>vkGetPhysicalDeviceProperties\<close> and the Vulkan 1.1 property query answer for that handle.\<close>

record PhysicalDevice =
  pdHandle :: nat
  pdProperties :: VkPhysicalDeviceProperties
  pdVk11 :: VkPhysicalDeviceVulkan11Properties

text \<open>Modelled from the spec: the class \<open>DxvkAdapter\<close> is declared outside the source file.
  An adapter owns one physical-device handle, a cached immutable property snapshot (device
  type, vendor id, device id, locally-unique identifier and its validity flag) and the set of
  device extensions enabled on it by provider contributions.\<close>

record DxvkAdapter =
  m_handle :: nat
  deviceProperties :: VkPhysicalDeviceProperties
  vk11 :: VkPhysicalDeviceVulkan11Properties
  m_extraExtensions :: "string list"

text \<open>Modelled from the spec: the constructor of \<open>DxvkAdapter\<close> is defined outside the
  source file. The new adapter wraps the driver handle and caches the property snapshot of
  that device; no device extension is enabled on it yet.\<close>

definition new_DxvkAdapter :: "PhysicalDevice \<Rightarrow> DxvkAdapter" where
  "new_DxvkAdapter pd =
     \<lparr> m_handle = pdHandle pd, deviceProperties = pdProperties pd,
       vk11 = pdVk11 pd, m_extraExtensions = [] \<rparr>"

datatype DxvkError = DxvkError string

text \<open>How a function ends when it does not return: it throws a \<open>DxvkError\<close>, or it reads
  the element of a vector at an index that is not below the vector's size (\<open>operator[]\<close>
  does not check; the behaviour of the C++ program is undefined from there, and the run the
  model describes ends at that read). The number is the index read.\<close>

datatype failure = Thrown DxvkError | OutOfBoundsRead nat

text \<open>Everything the code does besides returning: log lines, calls into providers, calls
  into the driver. A function's effects are the list of events it appends, oldest first.\<close>

datatype event =
    LogInfo string
  | LogWarn string
  | ConfigLogOptions
  | InitInstanceExtensions string
  | InitDeviceExtensions string
  | LoadLibrary
  | EnumInstanceExtensions
  | CreateVkInstance "string list"
  | EnumeratePhysicalDevices "nat option"
  | GetPhysicalDeviceProperties nat

section \<open>The driver's device enumeration\<close>

text \<open>The state of the driver at one call of \<open>vkEnumeratePhysicalDevices\<close>: the devices it
  has at that moment, and the status it answers with when it does not fail
  (\<open>VK_SUCCESS\<close>) or the error it fails with.\<close>

record DriverState =
  drvStatus :: VkResult
  drvDevices :: "PhysicalDevice list"

text \<open>The contract of \<open>vkEnumeratePhysicalDevices (instance, pCount, pDevices)\<close>. With
  \<open>pDevices = nullptr\<close> (here \<open>None\<close>) the count is set to the number of devices. With a
  buffer of \<open>cap\<close> elements at most \<open>cap\<close> handles are written, the count is set to the
  number written, and the status is \<open>VK_INCOMPLETE\<close> when the buffer was too small. The
  result is the status, the new count and the handles written.\<close>

definition vkEnumeratePhysicalDevices ::
  "DriverState \<Rightarrow> nat \<Rightarrow> nat option \<Rightarrow> VkResult \<times> nat \<times> PhysicalDevice list" where
  "vkEnumeratePhysicalDevices drv count pDevices =
     (if drvStatus drv \<noteq> VK_SUCCESS then (drvStatus drv, count, [])
      else case pDevices of
          None \<Rightarrow> (VK_SUCCESS, length (drvDevices drv), [])
        | Some cap \<Rightarrow>
            (if cap < length (drvDevices drv) then VK_INCOMPLETE else VK_SUCCESS,
             min cap (length (drvDevices drv)),
             take cap (drvDevices drv)))"

section \<open>Device filter\<close>

datatype DxvkDeviceFilterFlag = SkipCpuDevices

type_synonym DxvkDeviceFilterFlags = "DxvkDeviceFilterFlag set"

text \<open>Lines 160 to 167: the flags start empty; the loop over all reported devices sets
  \<open>SkipCpuDevices\<close> at every device whose type is not CPU.\<close>

fun computeFilterFlags ::
  "VkPhysicalDeviceProperties list \<Rightarrow> DxvkDeviceFilterFlags \<Rightarrow> DxvkDeviceFilterFlags" where
  "computeFilterFlags [] filterFlags = filterFlags"
| "computeFilterFlags (p # ps) filterFlags =
     computeFilterFlags ps
       (if deviceType p \<noteq> VK_PHYSICAL_DEVICE_TYPE_CPU
        then insert SkipCpuDevices filterFlags else filterFlags)"

text \<open>Modelled from the spec: \<open>DxvkDeviceFilter::testAdapter\<close> is defined outside the source
  file. The spec describes a pure predicate over one property snapshot, parameterized by
  the policy flags, whose one flag excludes CPU-type devices.\<close>

definition testAdapter :: "DxvkDeviceFilterFlags \<Rightarrow> VkPhysicalDeviceProperties \<Rightarrow> bool" where
  "testAdapter m_flags properties =
     (if SkipCpuDevices \<in> m_flags \<and> deviceType properties = VK_PHYSICAL_DEVICE_TYPE_CPU
      then False else True)"

text \<open>Lines 172 to 175: the devices that pass the filter, in enumeration order, each wrapped
  in a new adapter. The filter predicate is a parameter.\<close>

fun collectAdapters ::
  "(VkPhysicalDeviceProperties \<Rightarrow> bool) \<Rightarrow> PhysicalDevice list \<Rightarrow> DxvkAdapter list" where
  "collectAdapters test [] = []"
| "collectAdapters test (pd # pds) =
     (if test (pdProperties pd)
      then new_DxvkAdapter pd # collectAdapters test pds
      else collectAdapters test pds)"

section \<open>Ranking\<close>

definition deviceTypes :: "VkPhysicalDeviceType list" where
  "deviceTypes =
     [VK_PHYSICAL_DEVICE_TYPE_DISCRETE_GPU,
      VK_PHYSICAL_DEVICE_TYPE_INTEGRATED_GPU,
      VK_PHYSICAL_DEVICE_TYPE_VIRTUAL_GPU]"

text \<open>The loop of the comparator, lines 188 to 191. Its bound \<open>min aRank bRank\<close> is read
  again at every iteration, so the loop stops as soon as one of the two ranks is found.
  Started from \<open>aRank = bRank = 3\<close> the index stays below the length of \<open>deviceTypes\<close>.\<close>

function rankLoop ::
  "VkPhysicalDeviceType \<Rightarrow> VkPhysicalDeviceType \<Rightarrow> nat \<Rightarrow> nat \<times> nat \<Rightarrow> nat \<times> nat" where
  "rankLoop ta tb i (aRank, bRank) =
     (if i < min aRank bRank then
        rankLoop ta tb (i + 1)
          (if ta = deviceTypes ! i then i else aRank,
           if tb = deviceTypes ! i then i else bRank)
      else (aRank, bRank))"
  by pat_completeness auto
termination
  by (relation "measure (\<lambda>(ta, tb, i, aRank, bRank). min aRank bRank - i)") auto

definition adapterLess :: "DxvkAdapter \<Rightarrow> DxvkAdapter \<Rightarrow> bool" where
  "adapterLess a b =
     (case rankLoop (deviceType (deviceProperties a)) (deviceType (deviceProperties b)) 0
             (length deviceTypes, length deviceTypes) of
        (aRank, bRank) \<Rightarrow> aRank < bRank)"

text \<open>\<open>std::stable_sort\<close> with a comparator, as a stable insertion sort: an element is put
  after every element already placed that the comparator does not put behind it. The
  elements are inserted from the last to the first, so equivalent elements keep their order.\<close>

fun stable_insert :: "('a \<Rightarrow> 'a \<Rightarrow> bool) \<Rightarrow> 'a \<Rightarrow> 'a list \<Rightarrow> 'a list" where
  "stable_insert lt x [] = [x]"
| "stable_insert lt x (y # ys) =
     (if lt y x then y # stable_insert lt x ys else x # y # ys)"

fun stable_sort :: "('a \<Rightarrow> 'a \<Rightarrow> bool) \<Rightarrow> 'a list \<Rightarrow> 'a list" where
  "stable_sort lt [] = []"
| "stable_sort lt (x # xs) = stable_insert lt x (stable_sort lt xs)"

text \<open>The priority class of the spec: discrete 0, integrated 1, virtual 2, every other
  device type 3 (the length of the priority table).\<close>

fun spec_priorityClass :: "VkPhysicalDeviceType \<Rightarrow> nat" where
  "spec_priorityClass VK_PHYSICAL_DEVICE_TYPE_DISCRETE_GPU = 0"
| "spec_priorityClass VK_PHYSICAL_DEVICE_TYPE_INTEGRATED_GPU = 1"
| "spec_priorityClass VK_PHYSICAL_DEVICE_TYPE_VIRTUAL_GPU = 2"
| "spec_priorityClass _ = 3"

definition adapterType :: "DxvkAdapter \<Rightarrow> VkPhysicalDeviceType" where
  "adapterType a = deviceType (deviceProperties a)"

definition isOtherType :: "VkPhysicalDeviceType \<Rightarrow> bool" where
  "isOtherType t =
     (t \<noteq> VK_PHYSICAL_DEVICE_TYPE_DISCRETE_GPU \<and>
      t \<noteq> VK_PHYSICAL_DEVICE_TYPE_INTEGRATED_GPU \<and>
      t \<noteq> VK_PHYSICAL_DEVICE_TYPE_VIRTUAL_GPU)"

section \<open>\<open>DxvkInstance::queryAdapters\<close>\<close>

definition noAdaptersWarning :: string where
  "noAdaptersWarning =
     ''DXVK: No adapters found. Please check your device filter settings and Vulkan setup.''"

definition enumerateFailed :: failure where
  "enumerateFailed =
     Thrown (DxvkError ''DxvkInstance::enumAdapters: Failed to enumerate adapters'')"

text \<open>Lines 159 to 175 on the devices the driver wrote: the flags are computed over the
  properties of all of them, the filter object is built from the flags, and only then is
  each device tested, in enumeration order.\<close>

definition filteredAdapters ::
  "(DxvkDeviceFilterFlags \<Rightarrow> VkPhysicalDeviceProperties \<Rightarrow> bool) \<Rightarrow>
   PhysicalDevice list \<Rightarrow> DxvkAdapter list" where
  "filteredAdapters filterTest devices =
     (let filterFlags = computeFilterFlags (map pdProperties devices) {}
      in collectAdapters (filterTest filterFlags) devices)"

text \<open>\<open>adapters.data()\<close> of a vector with \<open>n\<close> elements, as the argument
  \<open>pPhysicalDevices\<close>: a buffer of that many elements, and the null pointer when the vector
  is empty (an empty vector owns no storage; the common standard libraries return null).\<close>

definition vector_data :: "nat \<Rightarrow> nat option" where
  "vector_data n = (if n = 0 then None else Some n)"

text \<open>Lines 150 to 202. \<open>drv1\<close> and \<open>drv2\<close> are the driver's state at the first and at
  the second call of \<open>vkEnumeratePhysicalDevices\<close>. The vector \<open>adapters\<close> has the size
  \<open>numAdapters1\<close> the first call reported, and the second call gets its data pointer: with
  a count of zero that pointer is null and the second call is a count query too. The loops
  run over the count \<open>numAdapters\<close> the second call wrote back and read \<open>adapters[i]\<close>;
  when that count exceeds the vector's size the first loop reads past the vector at index
  \<open>numAdapters1\<close> (line 163). The result is the returned list or the way the call ended
  otherwise, and the events up to that point.\<close>

definition queryAdapters ::
  "(DxvkDeviceFilterFlags \<Rightarrow> VkPhysicalDeviceProperties \<Rightarrow> bool) \<Rightarrow>
   DriverState \<Rightarrow> DriverState \<Rightarrow> (failure + DxvkAdapter list) \<times> event list" where
  "queryAdapters filterTest drv1 drv2 =
     (case vkEnumeratePhysicalDevices drv1 0 None of
        (status1, numAdapters1, _) \<Rightarrow>
          if status1 \<noteq> VK_SUCCESS
          then (Inl enumerateFailed, [EnumeratePhysicalDevices None])
          else
            (case vkEnumeratePhysicalDevices drv2 numAdapters1 (vector_data numAdapters1) of
               (status2, numAdapters, adapters) \<Rightarrow>
                 if status2 \<noteq> VK_SUCCESS
                 then (Inl enumerateFailed,
                       [EnumeratePhysicalDevices None,
                        EnumeratePhysicalDevices (vector_data numAdapters1)])
                 else if numAdapters1 < numAdapters
                 then (Inl (OutOfBoundsRead numAdapters1),
                       [EnumeratePhysicalDevices None,
                        EnumeratePhysicalDevices (vector_data numAdapters1)]
                       @ map (\<lambda>pd. GetPhysicalDeviceProperties (pdHandle pd))
                           (take numAdapters1 adapters))
                 else
                   (let devices = take numAdapters adapters;
                        result = stable_sort adapterLess (filteredAdapters filterTest devices)
                    in (Inr result,
                        [EnumeratePhysicalDevices None,
                         EnumeratePhysicalDevices (vector_data numAdapters1)]
                        @ map (\<lambda>pd. GetPhysicalDeviceProperties (pdHandle pd)) devices
                        @ (if length result = 0 then [LogWarn noAdaptersWarning] else [])))))"

section \<open>Adapter lookup\<close>

text \<open>\<open>memcmp\<close> over the first \<open>n\<close> bytes of two buffers: the sign of the first difference,
  0 when there is none. Both buffers hold at least \<open>n\<close> bytes in every call the C code may
  make; the last equation covers \<open>n = 0\<close> (and buffers that end early, which the contract
  of \<open>memcmp\<close> excludes).\<close>

fun memcmp :: "u8 list \<Rightarrow> u8 list \<Rightarrow> nat \<Rightarrow> int" where
  "memcmp (x # xs) (y # ys) (Suc n) =
     (if x < y then - 1 else if y < x then 1 else memcmp xs ys n)"
| "memcmp _ _ _ = 0"

text \<open>Lines 66 to 75, the loop over \<open>m_adapters\<close>; \<open>nullptr\<close> is \<open>None\<close>.\<close>

fun findAdapterByLuid :: "DxvkAdapter list \<Rightarrow> u8 list \<Rightarrow> DxvkAdapter option" where
  "findAdapterByLuid [] luid = None"
| "findAdapterByLuid (adapter # rest) luid =
     (if deviceLUIDValid (vk11 adapter) \<noteq> 0
         \<and> \<not> (memcmp luid (deviceLUID (vk11 adapter)) VK_LUID_SIZE \<noteq> 0)
      then Some adapter
      else findAdapterByLuid rest luid)"

text \<open>Lines 78 to 88. The arguments are 16-bit, the stored fields 32-bit: the comparison
  converts the arguments to 32 bits, keeping their value.\<close>

fun findAdapterByDeviceId :: "DxvkAdapter list \<Rightarrow> u16 \<Rightarrow> u16 \<Rightarrow> DxvkAdapter option" where
  "findAdapterByDeviceId [] vendorId deviceId = None"
| "findAdapterByDeviceId (adapter # rest) vendorId deviceId =
     (if vendorID (deviceProperties adapter) = ucast vendorId
         \<and> deviceID (deviceProperties adapter) = ucast deviceId
      then Some adapter
      else findAdapterByDeviceId rest vendorId deviceId)"

text \<open>What the spec calls a match of the two lookups.\<close>

definition spec_luidMatches :: "u8 list \<Rightarrow> DxvkAdapter \<Rightarrow> bool" where
  "spec_luidMatches luid a =
     (deviceLUIDValid (vk11 a) \<noteq> 0 \<and> deviceLUID (vk11 a) = take VK_LUID_SIZE luid)"

definition spec_deviceIdMatches :: "u16 \<Rightarrow> u16 \<Rightarrow> DxvkAdapter \<Rightarrow> bool" where
  "spec_deviceIdMatches vendorId deviceId a =
     (unat (vendorID (deviceProperties a)) = unat vendorId
      \<and> unat (deviceID (deviceProperties a)) = unat deviceId)"

text \<open>The first element of a list with a property, as a position: it has the property
  and nothing before it has.\<close>

definition firstMatch :: "('a \<Rightarrow> bool) \<Rightarrow> 'a list \<Rightarrow> 'a \<Rightarrow> bool" where
  "firstMatch P xs a =
     (\<exists>i < length xs. xs ! i = a \<and> P a \<and> (\<forall>j < i. \<not> P (xs ! j)))"

definition luidWellFormed :: "DxvkAdapter list \<Rightarrow> bool" where
  "luidWellFormed adapters =
     (\<forall>a \<in> set adapters. length (deviceLUID (vk11 a)) = VK_LUID_SIZE)"

section \<open>Extension negotiation\<close>

text \<open>Modelled from the spec: \<open>DxvkExt\<close>, \<open>DxvkInstanceExtensions\<close> and \<open>DxvkNameSet\<close> are
  declared outside the source file. A slot names one desired extension, says whether it is
  mandatory, and carries an output flag that negotiation writes. The instance slots are the
  two mandatory surface extensions and the non-mandatory debug/instrumentation extension.
  A name set is kept as a list of names without duplicates.\<close>

record DxvkExt =
  extName :: string
  extRequired :: bool
  extEnabled :: bool

record DxvkInstanceExtensions =
  extDebugUtils :: DxvkExt
  khrGetSurfaceCapabilities2 :: DxvkExt
  khrSurface :: DxvkExt

definition VK_EXT_DEBUG_UTILS_EXTENSION_NAME :: string where
  "VK_EXT_DEBUG_UTILS_EXTENSION_NAME = ''VK_EXT_debug_utils''"

definition VK_KHR_GET_SURFACE_CAPABILITIES_2_EXTENSION_NAME :: string where
  "VK_KHR_GET_SURFACE_CAPABILITIES_2_EXTENSION_NAME = ''VK_KHR_get_surface_capabilities2''"

definition VK_KHR_SURFACE_EXTENSION_NAME :: string where
  "VK_KHR_SURFACE_EXTENSION_NAME = ''VK_KHR_surface''"

text \<open>Modelled from the spec: the slots as a fresh \<open>DxvkInstanceExtensions\<close> holds them,
  none enabled; the two surface extensions are the mandatory subset.\<close>

definition new_DxvkInstanceExtensions :: DxvkInstanceExtensions where
  "new_DxvkInstanceExtensions =
     \<lparr> extDebugUtils =
         \<lparr> extName = VK_EXT_DEBUG_UTILS_EXTENSION_NAME,
           extRequired = False, extEnabled = False \<rparr>,
       khrGetSurfaceCapabilities2 =
         \<lparr> extName = VK_KHR_GET_SURFACE_CAPABILITIES_2_EXTENSION_NAME,
           extRequired = True, extEnabled = False \<rparr>,
       khrSurface =
         \<lparr> extName = VK_KHR_SURFACE_EXTENSION_NAME,
           extRequired = True, extEnabled = False \<rparr> \<rparr>"

type_synonym DxvkNameSet = "string list"

text \<open>Modelled from the spec: \<open>DxvkNameSet::merge\<close> and \<open>DxvkNameSet::toNameList\<close> are
  defined outside the source file. Merging adds the names of the other set that are not yet
  present; the name list holds the names of the set.\<close>

definition nameSet_merge :: "DxvkNameSet \<Rightarrow> DxvkNameSet \<Rightarrow> DxvkNameSet" where
  "nameSet_merge names other = fold List.insert other names"

definition toNameList :: "DxvkNameSet \<Rightarrow> string list" where
  "toNameList names = names"

text \<open>The elements of \<open>insExtensionList\<close> are pointers to the fields of the local
  \<open>insExtensions\<close>: negotiation writes through them into that one structure.\<close>

datatype ExtPtr = Ptr_extDebugUtils | Ptr_khrGetSurfaceCapabilities2 | Ptr_khrSurface

fun deref :: "DxvkInstanceExtensions \<Rightarrow> ExtPtr \<Rightarrow> DxvkExt" where
  "deref exts Ptr_extDebugUtils = extDebugUtils exts"
| "deref exts Ptr_khrGetSurfaceCapabilities2 = khrGetSurfaceCapabilities2 exts"
| "deref exts Ptr_khrSurface = khrSurface exts"

fun assign :: "DxvkInstanceExtensions \<Rightarrow> ExtPtr \<Rightarrow> DxvkExt \<Rightarrow> DxvkInstanceExtensions" where
  "assign exts Ptr_extDebugUtils e = exts\<lparr>extDebugUtils := e\<rparr>"
| "assign exts Ptr_khrGetSurfaceCapabilities2 e = exts\<lparr>khrGetSurfaceCapabilities2 := e\<rparr>"
| "assign exts Ptr_khrSurface e = exts\<lparr>khrSurface := e\<rparr>"

text \<open>Modelled from the spec: \<open>DxvkNameSet::enableExtensions\<close> is defined outside the source
  file. Given the names the driver reports as available and the ordered list of slots, it
  produces the enabled subset and writes into each slot whether it was enabled: a slot is
  enabled if and only if its exact name is in the available set. The call fails as a whole
  when a mandatory slot is unavailable; an unavailable non-mandatory slot is dropped
  silently. The result is the success flag, the slots and the enabled name set.\<close>

fun enableExtensions ::
  "DxvkNameSet \<Rightarrow> ExtPtr list \<Rightarrow> DxvkInstanceExtensions \<times> DxvkNameSet \<Rightarrow>
   bool \<times> DxvkInstanceExtensions \<times> DxvkNameSet" where
  "enableExtensions available [] (exts, nameSet) = (True, exts, nameSet)"
| "enableExtensions available (p # ps) (exts, nameSet) =
     (if extName (deref exts p) \<in> set available
      then enableExtensions available ps
             (assign exts p ((deref exts p)\<lparr>extEnabled := True\<rparr>),
              List.insert (extName (deref exts p)) nameSet)
      else (case enableExtensions available ps (exts, nameSet) of
              (ok, exts', nameSet') \<Rightarrow> (ok \<and> \<not> extRequired (deref exts p), exts', nameSet')))"

section \<open>The instance and its surroundings\<close>

text \<open>Modelled from the spec: the capability providers are singletons defined outside the
  source file. A provider has a name, contributes instance-level extension names and, per
  adapter index, device-level extension names, and receives the two lifecycle hooks.\<close>

record DxvkExtensionProvider =
  getName :: string
  getInstanceExtensions :: DxvkNameSet
  getDeviceExtensions :: "nat \<Rightarrow> DxvkNameSet"

text \<open>Modelled from the spec: \<open>DxvkOptions\<close> is declared outside the source file; it holds
  the resolved boolean "enable debug/instrumentation extension".\<close>

record DxvkOptions =
  enableDebugUtils :: bool

text \<open>Everything the constructor reads from outside the source file: the executable's name,
  the version string, the platform the code was compiled for, the process environment, the
  resolved configuration, whether the driver library loads, the instance extensions the
  driver reports, the answer of \<open>vkCreateInstance\<close>, the driver's state at the two
  enumeration calls, and the provider singletons.\<close>

record World =
  exeName :: string
  DXVK_VERSION :: string
  isWin32 :: bool
  envVars :: "string \<rightharpoonup> string"
  resolvedOptions :: DxvkOptions
  libraryValid :: bool
  availableInstanceExtensions :: DxvkNameSet
  createInstanceStatus :: VkResult
  createInstanceHandle :: nat
  enumState1 :: DriverState
  enumState2 :: DriverState
  platformExts :: DxvkExtensionProvider
  vrInstance :: DxvkExtensionProvider
  xrProvider :: DxvkExtensionProvider

text \<open>Modelled from the spec: \<open>env::getEnvVar\<close> is defined outside the source file. The
  override is read from the process environment; a variable that is not set reads as the
  empty string.\<close>

definition getEnvVar :: "World \<Rightarrow> string \<Rightarrow> string" where
  "getEnvVar w name = (case envVars w name of None \<Rightarrow> [] | Some v \<Rightarrow> v)"

record DxvkInstance =
  m_options :: DxvkOptions
  m_extProviders :: "DxvkExtensionProvider list"
  m_extensions :: DxvkInstanceExtensions
  m_vki :: "nat option"
  m_adapters :: "DxvkAdapter list"

section \<open>\<open>DxvkInstance::createInstance\<close>\<close>

definition debugUtilsWarning :: string where
  "debugUtilsWarning =
     ''DXVK: Debug Utils are enabled, perf events are ON. May affect performance!''"

definition negotiationFailed :: failure where
  "negotiationFailed = Thrown (DxvkError ''DxvkInstance: Failed to create instance'')"

definition createFailed :: failure where
  "createFailed =
     Thrown (DxvkError
       ''DxvkInstance::createInstance: Failed to create Vulkan 1.1 instance'')"

text \<open>The condition of lines 101 and 102.\<close>

definition debugOptIn :: "World \<Rightarrow> DxvkInstance \<Rightarrow> bool" where
  "debugOptIn w this =
     (getEnvVar w ''DXVK_PERF_EVENTS'' = ''1'' \<or> enableDebugUtils (m_options this))"

text \<open>Lines 94 to 105: the requested slots, and the warning logged with the push.\<close>

definition insExtensionList :: "World \<Rightarrow> DxvkInstance \<Rightarrow> ExtPtr list \<times> event list" where
  "insExtensionList w this =
     (if debugOptIn w this
      then ([Ptr_khrGetSurfaceCapabilities2, Ptr_khrSurface] @ [Ptr_extDebugUtils],
            [LogWarn debugUtilsWarning])
      else ([Ptr_khrGetSurfaceCapabilities2, Ptr_khrSurface], []))"

definition logNameList :: "string list \<Rightarrow> event list" where
  "logNameList names = map (\<lambda>name. LogInfo (''  '' @ name)) names"

text \<open>Lines 91 to 147. The result is the handle or the exception, the instance as the call
  leaves it (\<open>m_extensions\<close> is assigned only after negotiation succeeded), and the events.\<close>

definition createInstance ::
  "World \<Rightarrow> DxvkInstance \<Rightarrow> (failure + nat) \<times> DxvkInstance \<times> event list" where
  "createInstance w this =
     (case insExtensionList w this of
        (ptrs, log1) \<Rightarrow>
          (case enableExtensions (availableInstanceExtensions w) ptrs
                  (new_DxvkInstanceExtensions, []) of
             (ok, insExtensions, extensionsEnabled) \<Rightarrow>
               if \<not> ok
               then (Inl negotiationFailed, this, log1 @ [EnumInstanceExtensions])
               else
                 (let this' = this\<lparr>m_extensions := insExtensions\<rparr>;
                      merged = fold (\<lambda>provider names.
                                  nameSet_merge names (getInstanceExtensions provider))
                                 (m_extProviders this') extensionsEnabled;
                      extensionNameList = toNameList merged;
                      log2 = log1 @ [EnumInstanceExtensions]
                               @ [LogInfo ''Enabled instance extensions:'']
                               @ logNameList extensionNameList
                               @ [CreateVkInstance extensionNameList]
                  in if createInstanceStatus w \<noteq> VK_SUCCESS
                     then (Inl createFailed, this', log2)
                     else (Inr (createInstanceHandle w), this', log2))))"

section \<open>The constructor\<close>

definition libraryFailed :: failure where
  "libraryFailed = Thrown (DxvkError ''Failed to load vulkan-1 library.'')"

text \<open>Lines 22 to 26: the providers in the order they are pushed.\<close>

definition registeredProviders :: "World \<Rightarrow> DxvkExtensionProvider list" where
  "registeredProviders w =
     [platformExts w] @ (if isWin32 w then [vrInstance w, xrProvider w] else [])"

text \<open>Modelled from the spec: \<open>DxvkAdapter::enableExtensions\<close> is defined outside the source
  file; a provider's device extensions are merged into the adapter's enabled set.\<close>

definition adapter_enableExtensions :: "DxvkAdapter \<Rightarrow> DxvkNameSet \<Rightarrow> DxvkAdapter" where
  "adapter_enableExtensions a extensions =
     a\<lparr>m_extraExtensions := nameSet_merge (m_extraExtensions a) extensions\<rparr>"

text \<open>Lines 45 to 50, from adapter index \<open>i\<close> on.\<close>

fun applyDeviceExtensions ::
  "DxvkExtensionProvider list \<Rightarrow> nat \<Rightarrow> DxvkAdapter list \<Rightarrow> DxvkAdapter list" where
  "applyDeviceExtensions providers i [] = []"
| "applyDeviceExtensions providers i (a # rest) =
     fold (\<lambda>provider adapter.
             adapter_enableExtensions adapter (getDeviceExtensions provider i)) providers a
     # applyDeviceExtensions providers (i + 1) rest"

text \<open>Lines 13 to 33: the events up to and including the providers' instance-level
  initialization.\<close>

definition ctorPrologue :: "World \<Rightarrow> event list" where
  "ctorPrologue w =
     [LogInfo (''Game: '' @ exeName w), LogInfo (''DXVK: '' @ DXVK_VERSION w),
      ConfigLogOptions, LogInfo ''Built-in extension providers:'']
     @ map (\<lambda>provider. LogInfo (''  '' @ getName provider)) (registeredProviders w)"

text \<open>Lines 16 to 26: the members as they are before the first call into a provider.\<close>

definition DxvkInstance_init :: "World \<Rightarrow> DxvkInstance" where
  "DxvkInstance_init w =
     \<lparr> m_options = resolvedOptions w,
       m_extProviders = registeredProviders w,
       m_extensions = new_DxvkInstanceExtensions,
       m_vki = None,
       m_adapters = [] \<rparr>"

text \<open>Lines 12 to 51. The result is the constructed instance or the exception that
  aborted construction, and the events in the order they happen.\<close>

definition DxvkInstance_ctor :: "World \<Rightarrow> (failure + DxvkInstance) \<times> event list" where
  "DxvkInstance_ctor w =
     (let this = DxvkInstance_init w;
          log1 = ctorPrologue w
                 @ map (\<lambda>provider. InitInstanceExtensions (getName provider))
                     (m_extProviders this)
                 @ [LoadLibrary]
      in if \<not> libraryValid w then (Inl libraryFailed, log1)
         else
           (case createInstance w this of
              (Inl e, _, log2) \<Rightarrow> (Inl e, log1 @ log2)
            | (Inr instance, this2, log2) \<Rightarrow>
                (case queryAdapters testAdapter (enumState1 w) (enumState2 w) of
                   (Inl e, log3) \<Rightarrow> (Inl e, log1 @ log2 @ log3)
                 | (Inr adapters, log3) \<Rightarrow>
                     (Inr (this2\<lparr> m_vki := Some instance,
                                 m_adapters :=
                                   applyDeviceExtensions (m_extProviders this2) 0 adapters \<rparr>),
                      log1 @ log2 @ log3
                      @ map (\<lambda>provider. InitDeviceExtensions (getName provider))
                          (m_extProviders this2)))))"

text \<open>The mandatory subset of the instance extensions is available.\<close>

definition mandatoryAvailable :: "DxvkNameSet \<Rightarrow> bool" where
  "mandatoryAvailable available =
     (VK_KHR_GET_SURFACE_CAPABILITIES_2_EXTENSION_NAME \<in> set available
      \<and> VK_KHR_SURFACE_EXTENSION_NAME \<in> set available)"

section \<open>Classifying events\<close>

fun isWarning :: "event \<Rightarrow> bool" where
  "isWarning (LogWarn _) = True"
| "isWarning _ = False"

fun isEnumerateCall :: "event \<Rightarrow> bool" where
  "isEnumerateCall (EnumeratePhysicalDevices _) = True"
| "isEnumerateCall _ = False"

fun isInitInstanceExtensions :: "event \<Rightarrow> bool" where
  "isInitInstanceExtensions (InitInstanceExtensions _) = True"
| "isInitInstanceExtensions _ = False"

section \<open>Example inputs\<close>

definition exampleDevice :: "nat \<Rightarrow> VkPhysicalDeviceType \<Rightarrow> PhysicalDevice" where
  "exampleDevice h t =
     \<lparr> pdHandle = h,
       pdProperties = \<lparr> apiVersion = 0, driverVersion = 0, vendorID = 0, deviceID = 0,
                        deviceType = t, deviceName = [] \<rparr>,
       pdVk11 = \<lparr> deviceLUID = replicate 8 0, deviceLUIDValid = 0 \<rparr> \<rparr>"

definition exampleDriver :: "PhysicalDevice list \<Rightarrow> DriverState" where
  "exampleDriver devices = \<lparr> drvStatus = VK_SUCCESS, drvDevices = devices \<rparr>"

definition rankingExample :: "PhysicalDevice list" where
  "rankingExample =
     [exampleDevice 1 VK_PHYSICAL_DEVICE_TYPE_INTEGRATED_GPU,
      exampleDevice 2 VK_PHYSICAL_DEVICE_TYPE_DISCRETE_GPU,
      exampleDevice 3 VK_PHYSICAL_DEVICE_TYPE_VIRTUAL_GPU,
      exampleDevice 4 VK_PHYSICAL_DEVICE_TYPE_DISCRETE_GPU]"

definition cpuPopulationMixed :: "PhysicalDevice list" where
  "cpuPopulationMixed =
     [exampleDevice 1 VK_PHYSICAL_DEVICE_TYPE_CPU,
      exampleDevice 2 VK_PHYSICAL_DEVICE_TYPE_INTEGRATED_GPU]"

definition cpuPopulationOnly :: "PhysicalDevice list" where
  "cpuPopulationOnly =
     [exampleDevice 1 VK_PHYSICAL_DEVICE_TYPE_CPU,
      exampleDevice 2 VK_PHYSICAL_DEVICE_TYPE_CPU]"

definition exampleAdapter :: "nat \<Rightarrow> u32 \<Rightarrow> u32 \<Rightarrow> u8 list \<Rightarrow> u32 \<Rightarrow> DxvkAdapter" where
  "exampleAdapter h vendor device luid valid =
     \<lparr> m_handle = h,
       deviceProperties = \<lparr> apiVersion = 0, driverVersion = 0, vendorID = vendor,
                            deviceID = device,
                            deviceType = VK_PHYSICAL_DEVICE_TYPE_DISCRETE_GPU,
                            deviceName = [] \<rparr>,
       vk11 = \<lparr> deviceLUID = luid, deviceLUIDValid = valid \<rparr>,
       m_extraExtensions = [] \<rparr>"

definition exampleLuid :: "u8 list" where
  "exampleLuid = [1, 2, 3, 4, 5, 6, 7, 8]"

definition lookupExample :: "DxvkAdapter list" where
  "lookupExample =
     [exampleAdapter 1 0x10DE 0x1234 exampleLuid 0,
      exampleAdapter 2 0x1002 0x5678 exampleLuid 1,
      exampleAdapter 3 0x1002 0x5678 exampleLuid 1]"

definition exampleProvider :: "string \<Rightarrow> DxvkExtensionProvider" where
  "exampleProvider name =
     \<lparr> getName = name, getInstanceExtensions = [], getDeviceExtensions = (\<lambda>i. []) \<rparr>"

definition exampleWorld :: World where
  "exampleWorld =
     \<lparr> exeName = ''game.exe'', DXVK_VERSION = ''v2.0'', isWin32 = False,
       envVars = Map.empty,
       resolvedOptions = \<lparr> enableDebugUtils = False \<rparr>,
       libraryValid = True,
       availableInstanceExtensions =
         [VK_KHR_SURFACE_EXTENSION_NAME, VK_KHR_GET_SURFACE_CAPABILITIES_2_EXTENSION_NAME],
       createInstanceStatus = VK_SUCCESS,
       createInstanceHandle = 1,
       enumState1 = exampleDriver [exampleDevice 1 VK_PHYSICAL_DEVICE_TYPE_DISCRETE_GPU],
       enumState2 = exampleDriver [exampleDevice 1 VK_PHYSICAL_DEVICE_TYPE_DISCRETE_GPU],
       platformExts = exampleProvider ''Platform WSI'',
       vrInstance = exampleProvider ''OpenVR'',
       xrProvider = exampleProvider ''OpenXR'' \<rparr>"

definition exampleInstance :: DxvkInstance where
  "exampleInstance =
     \<lparr> m_options = \<lparr> enableDebugUtils = False \<rparr>,
       m_extProviders = [],
       m_extensions = new_DxvkInstanceExtensions,
       m_vki = None,
       m_adapters = [] \<rparr>"

definition debugWorld :: "DxvkNameSet \<Rightarrow> World" where
  "debugWorld available =
     exampleWorld\<lparr> envVars := [''DXVK_PERF_EVENTS'' \<mapsto> ''1''],
                   availableInstanceExtensions := available \<rparr>"

section \<open>Ranking is a stable sort by priority class\<close>

lemma rankLoop_init:
  "rankLoop ta tb 0 (3, 3) =
     (if spec_priorityClass ta \<le> spec_priorityClass tb then spec_priorityClass ta else 3,
      if spec_priorityClass tb \<le> spec_priorityClass ta then spec_priorityClass tb else 3)"
  by (cases ta; cases tb; simp add: deviceTypes_def numeral_3_eq_3)

lemma adapterLess_iff:
  "adapterLess a b \<longleftrightarrow> spec_priorityClass (adapterType a) < spec_priorityClass (adapterType b)"
  by (simp add: adapterLess_def adapterType_def deviceTypes_def rankLoop_init)
     (cases "deviceType (deviceProperties a)"; cases "deviceType (deviceProperties b)"; simp)

lemma stable_insert_insort:
  "stable_insert adapterLess x ys = insort_key (\<lambda>a. spec_priorityClass (adapterType a)) x ys"
  by (induction ys) (auto simp: adapterLess_iff)

lemma stable_sort_sort_key:
  "stable_sort adapterLess xs = sort_key (\<lambda>a. spec_priorityClass (adapterType a)) xs"
  by (induction xs) (simp_all add: stable_insert_insort)

lemma filter_class_empty:
  "\<forall>z \<in> set ys. k \<le> r z \<Longrightarrow> j < k \<Longrightarrow> filter (\<lambda>y. r y = (j::nat)) ys = []"
  by (induction ys) auto

lemma sorted_by_class_partition:
  assumes "sorted (map r ys)" and "\<forall>y \<in> set ys. r y \<le> (3::nat)"
  shows "filter (\<lambda>y. r y = 0) ys @ filter (\<lambda>y. r y = 1) ys
            @ filter (\<lambda>y. r y = 2) ys @ filter (\<lambda>y. r y = 3) ys = ys"
  using assms
proof (induction ys)
  case Nil
  then show ?case by simp
next
  case (Cons y ys)
  have ge: "\<forall>z \<in> set ys. r y \<le> r z" using Cons.prems(1) by simp
  have ih: "filter (\<lambda>y. r y = 0) ys @ filter (\<lambda>y. r y = 1) ys
            @ filter (\<lambda>y. r y = 2) ys @ filter (\<lambda>y. r y = 3) ys = ys"
    using Cons by simp
  consider "r y = 0" | "r y = 1" | "r y = 2" | "r y = 3"
    using Cons.prems(2) by force
  then show ?case
  proof cases
    case 1
    then show ?thesis using ih by simp
  next
    case 2
    then have "filter (\<lambda>y. r y = 0) ys = []"
      using ge by (simp add: filter_class_empty [where k = 1])
    then show ?thesis using ih 2 by simp
  next
    case 3
    then have "filter (\<lambda>y. r y = 0) ys = []" "filter (\<lambda>y. r y = 1) ys = []"
      using ge by (simp_all add: filter_class_empty [where k = 2])
    then show ?thesis using ih 3 by simp
  next
    case 4
    then have "filter (\<lambda>y. r y = 0) ys = []" "filter (\<lambda>y. r y = 1) ys = []"
      "filter (\<lambda>y. r y = 2) ys = []"
      using ge by (simp_all add: filter_class_empty [where k = 3])
    then show ?thesis using ih 4 by simp
  qed
qed

lemma stable_sort_partition:
  "stable_sort adapterLess xs =
     filter (\<lambda>a. adapterType a = VK_PHYSICAL_DEVICE_TYPE_DISCRETE_GPU) xs
   @ filter (\<lambda>a. adapterType a = VK_PHYSICAL_DEVICE_TYPE_INTEGRATED_GPU) xs
   @ filter (\<lambda>a. adapterType a = VK_PHYSICAL_DEVICE_TYPE_VIRTUAL_GPU) xs
   @ filter (\<lambda>a. isOtherType (adapterType a)) xs"
proof -
  let ?r = "\<lambda>a. spec_priorityClass (adapterType a)"
  let ?ys = "sort_key ?r xs"
  have le3: "\<And>t. spec_priorityClass t \<le> 3" subgoal for t by (cases t) simp_all done
  have "filter (\<lambda>y. ?r y = 0) ?ys @ filter (\<lambda>y. ?r y = 1) ?ys
            @ filter (\<lambda>y. ?r y = 2) ?ys @ filter (\<lambda>y. ?r y = 3) ?ys = ?ys"
    by (rule sorted_by_class_partition) (simp_all add: le3)
  then have "?ys = filter (\<lambda>y. ?r y = 0) xs @ filter (\<lambda>y. ?r y = 1) xs
            @ filter (\<lambda>y. ?r y = 2) xs @ filter (\<lambda>y. ?r y = 3) xs"
    by (simp only: sort_key_stable)
  moreover have "\<And>t. spec_priorityClass t = 0 \<longleftrightarrow> t = VK_PHYSICAL_DEVICE_TYPE_DISCRETE_GPU"
    subgoal for t by (cases t) simp_all done
  moreover have "\<And>t. spec_priorityClass t = 1 \<longleftrightarrow> t = VK_PHYSICAL_DEVICE_TYPE_INTEGRATED_GPU"
    subgoal for t by (cases t) simp_all done
  moreover have "\<And>t. spec_priorityClass t = 2 \<longleftrightarrow> t = VK_PHYSICAL_DEVICE_TYPE_VIRTUAL_GPU"
    subgoal for t by (cases t) simp_all done
  moreover have "\<And>t. spec_priorityClass t = 3 \<longleftrightarrow> isOtherType t"
    subgoal for t by (cases t) (simp_all add: isOtherType_def) done
  ultimately show ?thesis
    by (simp add: stable_sort_sort_key)
qed



lemma queryAdapters_Inr_iff:
  "fst (queryAdapters filterTest drv1 drv2) = Inr result \<longleftrightarrow>
     drvStatus drv1 = VK_SUCCESS \<and> drvStatus drv2 = VK_SUCCESS
     \<and> length (drvDevices drv2) \<le> length (drvDevices drv1)
     \<and> result = stable_sort adapterLess (filteredAdapters filterTest (drvDevices drv2))"
  by (auto simp: queryAdapters_def vector_data_def vkEnumeratePhysicalDevices_def Let_def min_def)

text \<open>C1: whenever \<open>queryAdapters\<close> returns a list, that list is the filtered list
  sorted stably by priority class (the library's stable \<open>sort_key\<close>), that is, with
  all discrete-GPU adapters first, then all integrated-GPU adapters, then all virtual-GPU
  adapters, then the adapters of every other device type, each class in enumeration order
  (each class is the filtered list restricted to that class). The witness runs the
  population [integrated, discrete, virtual, discrete] and gets devices 2, 4, 1, 3.\<close>

theorem queryAdapters_ranked:
  assumes "fst (queryAdapters filterTest drv1 drv2) = Inr result"
  shows "result =
     sort_key (\<lambda>a. spec_priorityClass (adapterType a))
       (filteredAdapters filterTest (drvDevices drv2))
   \<and> result =
     filter (\<lambda>a. adapterType a = VK_PHYSICAL_DEVICE_TYPE_DISCRETE_GPU)
       (filteredAdapters filterTest (drvDevices drv2))
   @ filter (\<lambda>a. adapterType a = VK_PHYSICAL_DEVICE_TYPE_INTEGRATED_GPU)
       (filteredAdapters filterTest (drvDevices drv2))
   @ filter (\<lambda>a. adapterType a = VK_PHYSICAL_DEVICE_TYPE_VIRTUAL_GPU)
       (filteredAdapters filterTest (drvDevices drv2))
   @ filter (\<lambda>a. isOtherType (adapterType a))
       (filteredAdapters filterTest (drvDevices drv2))"
proof -
  have "result = stable_sort adapterLess (filteredAdapters filterTest (drvDevices drv2))"
    using assms by (simp only: queryAdapters_Inr_iff)
  then show ?thesis
    using stable_sort_sort_key [of "filteredAdapters filterTest (drvDevices drv2)"]
      stable_sort_partition [of "filteredAdapters filterTest (drvDevices drv2)"]
    by simp
qed

theorem queryAdapters_ranked_witness:
  "fst (queryAdapters testAdapter (exampleDriver rankingExample) (exampleDriver rankingExample))
     = Inr (map new_DxvkAdapter
         [exampleDevice 2 VK_PHYSICAL_DEVICE_TYPE_DISCRETE_GPU,
          exampleDevice 4 VK_PHYSICAL_DEVICE_TYPE_DISCRETE_GPU,
          exampleDevice 1 VK_PHYSICAL_DEVICE_TYPE_INTEGRATED_GPU,
          exampleDevice 3 VK_PHYSICAL_DEVICE_TYPE_VIRTUAL_GPU])
   \<and> map new_DxvkAdapter
         [exampleDevice 2 VK_PHYSICAL_DEVICE_TYPE_DISCRETE_GPU,
          exampleDevice 4 VK_PHYSICAL_DEVICE_TYPE_DISCRETE_GPU,
          exampleDevice 1 VK_PHYSICAL_DEVICE_TYPE_INTEGRATED_GPU,
          exampleDevice 3 VK_PHYSICAL_DEVICE_TYPE_VIRTUAL_GPU]
     = filter (\<lambda>a. adapterType a = VK_PHYSICAL_DEVICE_TYPE_DISCRETE_GPU)
         (filteredAdapters testAdapter (drvDevices (exampleDriver rankingExample)))
     @ filter (\<lambda>a. adapterType a = VK_PHYSICAL_DEVICE_TYPE_INTEGRATED_GPU)
         (filteredAdapters testAdapter (drvDevices (exampleDriver rankingExample)))
     @ filter (\<lambda>a. adapterType a = VK_PHYSICAL_DEVICE_TYPE_VIRTUAL_GPU)
         (filteredAdapters testAdapter (drvDevices (exampleDriver rankingExample)))
     @ filter (\<lambda>a. isOtherType (adapterType a))
         (filteredAdapters testAdapter (drvDevices (exampleDriver rankingExample)))"
proof -
  have run: "fst (queryAdapters testAdapter (exampleDriver rankingExample)
                    (exampleDriver rankingExample))
     = Inr (map new_DxvkAdapter
         [exampleDevice 2 VK_PHYSICAL_DEVICE_TYPE_DISCRETE_GPU,
          exampleDevice 4 VK_PHYSICAL_DEVICE_TYPE_DISCRETE_GPU,
          exampleDevice 1 VK_PHYSICAL_DEVICE_TYPE_INTEGRATED_GPU,
          exampleDevice 3 VK_PHYSICAL_DEVICE_TYPE_VIRTUAL_GPU])"
    by (simp add: queryAdapters_def vector_data_def vkEnumeratePhysicalDevices_def exampleDriver_def
        rankingExample_def filteredAdapters_def testAdapter_def exampleDevice_def
        new_DxvkAdapter_def adapterLess_def deviceTypes_def numeral_3_eq_3)
  from queryAdapters_ranked [OF run] run show ?thesis
    by blast
qed

section \<open>Filtering CPU devices\<close>

lemma computeFilterFlags_eq:
  "computeFilterFlags ps F =
     (if \<exists>p \<in> set ps. deviceType p \<noteq> VK_PHYSICAL_DEVICE_TYPE_CPU
      then insert SkipCpuDevices F else F)"
  by (induction ps arbitrary: F) auto

lemma collectAdapters_map_filter:
  "collectAdapters test devs = map new_DxvkAdapter (filter (\<lambda>d. test (pdProperties d)) devs)"
  by (induction devs) simp_all

lemma adapterType_new [simp]: "adapterType (new_DxvkAdapter d) = deviceType (pdProperties d)"
  by (simp add: adapterType_def new_DxvkAdapter_def)

lemma set_stable_sort: "set (stable_sort adapterLess xs) = set xs"
  by (simp add: stable_sort_sort_key)

lemma stable_sort_all_cpu:
  assumes "\<forall>a \<in> set xs. adapterType a = VK_PHYSICAL_DEVICE_TYPE_CPU"
  shows "stable_sort adapterLess xs = xs"
proof -
  have "filter (\<lambda>a. isOtherType (adapterType a)) xs = xs"
    using assms by (simp add: isOtherType_def)
  moreover have "filter (\<lambda>a. adapterType a = t) xs = []"
    if "t \<noteq> VK_PHYSICAL_DEVICE_TYPE_CPU" for t
    using assms that by (auto simp: filter_empty_conv)
  ultimately show ?thesis
    by (simp add: stable_sort_partition)
qed

text \<open>C2: whenever \<open>queryAdapters\<close> returns a list: if at least one reported device is not
  of CPU type, the flag \<open>SkipCpuDevices\<close> is set, no adapter of the list is of CPU type and
  the list holds exactly the devices that are not of CPU type; if every reported device is
  of CPU type, the flag is clear and every device is in the list, in enumeration order. One
  value of the flags, computed over all reported devices, is the one every device is tested
  against.\<close>

theorem queryAdapters_cpu_filter:
  assumes "fst (queryAdapters testAdapter drv1 drv2) = Inr result"
  shows "((\<exists>d \<in> set (drvDevices drv2).
             deviceType (pdProperties d) \<noteq> VK_PHYSICAL_DEVICE_TYPE_CPU) \<longrightarrow>
            SkipCpuDevices \<in> computeFilterFlags (map pdProperties (drvDevices drv2)) {}
            \<and> (\<forall>a \<in> set result. adapterType a \<noteq> VK_PHYSICAL_DEVICE_TYPE_CPU)
            \<and> set result = new_DxvkAdapter `
                 {d \<in> set (drvDevices drv2).
                    deviceType (pdProperties d) \<noteq> VK_PHYSICAL_DEVICE_TYPE_CPU})
       \<and> ((\<forall>d \<in> set (drvDevices drv2).
              deviceType (pdProperties d) = VK_PHYSICAL_DEVICE_TYPE_CPU) \<longrightarrow>
            SkipCpuDevices \<notin> computeFilterFlags (map pdProperties (drvDevices drv2)) {}
            \<and> result = map new_DxvkAdapter (drvDevices drv2))
       \<and> filteredAdapters testAdapter (drvDevices drv2) =
           collectAdapters
             (testAdapter (computeFilterFlags (map pdProperties (drvDevices drv2)) {}))
             (drvDevices drv2)"
proof -
  let ?devs = "drvDevices drv2"
  have res: "result = stable_sort adapterLess (filteredAdapters testAdapter ?devs)"
    using assms by (simp add: queryAdapters_Inr_iff)
  have mixed: "filteredAdapters testAdapter ?devs =
      map new_DxvkAdapter
        (filter (\<lambda>d. deviceType (pdProperties d) \<noteq> VK_PHYSICAL_DEVICE_TYPE_CPU) ?devs)"
    if "\<exists>d \<in> set ?devs. deviceType (pdProperties d) \<noteq> VK_PHYSICAL_DEVICE_TYPE_CPU"
    using that
    by (simp add: filteredAdapters_def computeFilterFlags_eq collectAdapters_map_filter
        testAdapter_def)
  have only: "filteredAdapters testAdapter ?devs = map new_DxvkAdapter ?devs"
    if "\<forall>d \<in> set ?devs. deviceType (pdProperties d) = VK_PHYSICAL_DEVICE_TYPE_CPU"
    using that
    by (simp add: filteredAdapters_def computeFilterFlags_eq collectAdapters_map_filter
        testAdapter_def)
  have a: "SkipCpuDevices \<in> computeFilterFlags (map pdProperties ?devs) {}
        \<and> (\<forall>a \<in> set result. adapterType a \<noteq> VK_PHYSICAL_DEVICE_TYPE_CPU)
        \<and> set result = new_DxvkAdapter `
             {d \<in> set ?devs. deviceType (pdProperties d) \<noteq> VK_PHYSICAL_DEVICE_TYPE_CPU}"
    if "\<exists>d \<in> set ?devs. deviceType (pdProperties d) \<noteq> VK_PHYSICAL_DEVICE_TYPE_CPU"
    using that mixed [OF that] by (auto simp: res set_stable_sort computeFilterFlags_eq)
  have b: "SkipCpuDevices \<notin> computeFilterFlags (map pdProperties ?devs) {}
        \<and> result = map new_DxvkAdapter ?devs"
    if "\<forall>d \<in> set ?devs. deviceType (pdProperties d) = VK_PHYSICAL_DEVICE_TYPE_CPU"
    using that only [OF that]
    by (simp add: res computeFilterFlags_eq stable_sort_all_cpu)
  show ?thesis
    using a b by (simp add: filteredAdapters_def)
qed

theorem queryAdapters_cpu_filter_witness:
  "fst (queryAdapters testAdapter (exampleDriver cpuPopulationMixed)
          (exampleDriver cpuPopulationMixed))
     = Inr [new_DxvkAdapter (exampleDevice 2 VK_PHYSICAL_DEVICE_TYPE_INTEGRATED_GPU)]
   \<and> SkipCpuDevices \<in> computeFilterFlags (map pdProperties cpuPopulationMixed) {}
   \<and> fst (queryAdapters testAdapter (exampleDriver cpuPopulationOnly)
          (exampleDriver cpuPopulationOnly))
     = Inr (map new_DxvkAdapter cpuPopulationOnly)
   \<and> SkipCpuDevices \<notin> computeFilterFlags (map pdProperties cpuPopulationOnly) {}"
proof -
  have run1: "fst (queryAdapters testAdapter (exampleDriver cpuPopulationMixed)
          (exampleDriver cpuPopulationMixed))
     = Inr [new_DxvkAdapter (exampleDevice 2 VK_PHYSICAL_DEVICE_TYPE_INTEGRATED_GPU)]"
    by (simp add: queryAdapters_def vector_data_def vkEnumeratePhysicalDevices_def exampleDriver_def
        cpuPopulationMixed_def filteredAdapters_def testAdapter_def exampleDevice_def)
  have run2: "fst (queryAdapters testAdapter (exampleDriver cpuPopulationOnly)
          (exampleDriver cpuPopulationOnly))
     = Inr (map new_DxvkAdapter cpuPopulationOnly)"
    by (simp add: queryAdapters_def vector_data_def vkEnumeratePhysicalDevices_def exampleDriver_def
        cpuPopulationOnly_def filteredAdapters_def testAdapter_def exampleDevice_def
        new_DxvkAdapter_def adapterLess_def deviceTypes_def numeral_3_eq_3)
  have mixed: "\<exists>d \<in> set (drvDevices (exampleDriver cpuPopulationMixed)).
      deviceType (pdProperties d) \<noteq> VK_PHYSICAL_DEVICE_TYPE_CPU"
    by (simp add: exampleDriver_def cpuPopulationMixed_def exampleDevice_def)
  have only: "\<forall>d \<in> set (drvDevices (exampleDriver cpuPopulationOnly)).
      deviceType (pdProperties d) = VK_PHYSICAL_DEVICE_TYPE_CPU"
    by (simp add: exampleDriver_def cpuPopulationOnly_def exampleDevice_def)
  from queryAdapters_cpu_filter [OF run1] mixed
  have "SkipCpuDevices \<in> computeFilterFlags (map pdProperties cpuPopulationMixed) {}"
    by (simp add: exampleDriver_def)
  moreover from queryAdapters_cpu_filter [OF run2] only
  have "SkipCpuDevices \<notin> computeFilterFlags (map pdProperties cpuPopulationOnly) {}"
    by (simp add: exampleDriver_def)
  ultimately show ?thesis using run1 run2 by simp
qed

section \<open>No adapters\<close>

text \<open>C8: when both enumeration calls succeed and no device passes the filter (in
  particular when no device is reported), \<open>queryAdapters\<close> returns the empty list and not
  an exception, and exactly one warning event is among its events.\<close>

theorem queryAdapters_empty_warns_once:
  assumes "drvStatus drv1 = VK_SUCCESS" and "drvStatus drv2 = VK_SUCCESS"
    and "length (drvDevices drv2) \<le> length (drvDevices drv1)"
    and "filteredAdapters filterTest (drvDevices drv2) = []"
  shows "fst (queryAdapters filterTest drv1 drv2) = Inr []
       \<and> filter isWarning (snd (queryAdapters filterTest drv1 drv2))
           = [LogWarn noAdaptersWarning]"
proof (cases "drvDevices drv1 = []")
  case True
  with assms(3) have "drvDevices drv2 = []" by simp
  with assms True show ?thesis
    by (simp add: queryAdapters_def vector_data_def vkEnumeratePhysicalDevices_def)
next
  case False
  with assms show ?thesis
    by (simp add: queryAdapters_def vector_data_def vkEnumeratePhysicalDevices_def Let_def
        min_def filter_empty_conv)
qed

theorem queryAdapters_empty_warns_once_witness:
  "drvStatus (exampleDriver []) = VK_SUCCESS
   \<and> filteredAdapters testAdapter (drvDevices (exampleDriver [])) = []
   \<and> queryAdapters testAdapter (exampleDriver []) (exampleDriver [])
       = (Inr [], [EnumeratePhysicalDevices None, EnumeratePhysicalDevices None,
                   LogWarn noAdaptersWarning])
   \<and> filter isWarning (snd (queryAdapters testAdapter (exampleDriver []) (exampleDriver [])))
       = [LogWarn noAdaptersWarning]"
proof -
  have h1: "drvStatus (exampleDriver []) = VK_SUCCESS"
    by (simp add: exampleDriver_def)
  have h3: "length (drvDevices (exampleDriver [])) \<le> length (drvDevices (exampleDriver []))"
    by simp
  have h4: "filteredAdapters testAdapter (drvDevices (exampleDriver [])) = []"
    by (simp add: exampleDriver_def filteredAdapters_def)
  have run: "queryAdapters testAdapter (exampleDriver []) (exampleDriver [])
       = (Inr [], [EnumeratePhysicalDevices None, EnumeratePhysicalDevices None,
                   LogWarn noAdaptersWarning])"
    by (simp add: queryAdapters_def vector_data_def vkEnumeratePhysicalDevices_def exampleDriver_def
        filteredAdapters_def)
  from queryAdapters_empty_warns_once [OF h1 h1 h3 h4] h1 h4 run show ?thesis
    by simp
qed

section \<open>The two enumeration calls\<close>

text \<open>C5, as the claim states it, fails: when the first call counted one device and the
  second call finds two, the driver answers \<open>VK_INCOMPLETE\<close>, and \<open>queryAdapters\<close> throws
  after exactly two enumeration calls; the sizing call is not made again.\<close>

theorem queryAdapters_mismatch_counterexample:
  "fst (vkEnumeratePhysicalDevices
          (exampleDriver [exampleDevice 1 VK_PHYSICAL_DEVICE_TYPE_DISCRETE_GPU,
                          exampleDevice 2 VK_PHYSICAL_DEVICE_TYPE_DISCRETE_GPU])
          1 (Some 1)) = VK_INCOMPLETE
   \<and> queryAdapters testAdapter
       (exampleDriver [exampleDevice 1 VK_PHYSICAL_DEVICE_TYPE_DISCRETE_GPU])
       (exampleDriver [exampleDevice 1 VK_PHYSICAL_DEVICE_TYPE_DISCRETE_GPU,
                       exampleDevice 2 VK_PHYSICAL_DEVICE_TYPE_DISCRETE_GPU])
     = (Inl enumerateFailed,
        [EnumeratePhysicalDevices None, EnumeratePhysicalDevices (Some 1)])"
  by (simp add: queryAdapters_def vector_data_def vkEnumeratePhysicalDevices_def exampleDriver_def)

text \<open>C5, amended: enumeration makes the sizing call and, if that succeeds, exactly one
  more enumeration call, with the data pointer of a vector of the size reported (a buffer
  of that size when the count is positive, the null pointer of the empty vector when it is
  zero); no call is ever made again. Every status other than \<open>VK_SUCCESS\<close> from either
  call throws, and that includes \<open>VK_INCOMPLETE\<close> for a population that the first call
  counted as at least one device and that grew before the second call. When both calls
  answer \<open>VK_SUCCESS\<close> and the second reports no more devices than the first counted (a
  population that shrank is such a case) the list is built from the devices the second
  call wrote.\<close>

theorem queryAdapters_no_retry:
  "filter isEnumerateCall (snd (queryAdapters filterTest drv1 drv2)) =
     (if drvStatus drv1 \<noteq> VK_SUCCESS then [EnumeratePhysicalDevices None]
      else [EnumeratePhysicalDevices None,
            EnumeratePhysicalDevices
              (if length (drvDevices drv1) = 0 then None
               else Some (length (drvDevices drv1)))])
   \<and> (fst (queryAdapters filterTest drv1 drv2) = Inl enumerateFailed \<longleftrightarrow>
        drvStatus drv1 \<noteq> VK_SUCCESS \<or> drvStatus drv2 \<noteq> VK_SUCCESS
        \<or> (0 < length (drvDevices drv1)
            \<and> length (drvDevices drv1) < length (drvDevices drv2)))
   \<and> (drvStatus drv1 = VK_SUCCESS \<and> drvStatus drv2 = VK_SUCCESS
        \<and> length (drvDevices drv2) \<le> length (drvDevices drv1) \<longrightarrow>
        fst (queryAdapters filterTest drv1 drv2) =
          Inr (stable_sort adapterLess (filteredAdapters filterTest (drvDevices drv2))))"
proof -
  have calls: "filter isEnumerateCall (snd (queryAdapters filterTest drv1 drv2)) =
     (if drvStatus drv1 \<noteq> VK_SUCCESS then [EnumeratePhysicalDevices None]
      else [EnumeratePhysicalDevices None,
            EnumeratePhysicalDevices
              (if length (drvDevices drv1) = 0 then None
               else Some (length (drvDevices drv1)))])"
    by (simp add: queryAdapters_def vector_data_def vkEnumeratePhysicalDevices_def Let_def
        filter_empty_conv)
  have thrown: "fst (queryAdapters filterTest drv1 drv2) = Inl enumerateFailed \<longleftrightarrow>
        drvStatus drv1 \<noteq> VK_SUCCESS \<or> drvStatus drv2 \<noteq> VK_SUCCESS
        \<or> (0 < length (drvDevices drv1)
            \<and> length (drvDevices drv1) < length (drvDevices drv2))"
    by (auto simp: queryAdapters_def vector_data_def vkEnumeratePhysicalDevices_def Let_def
        enumerateFailed_def)
  have built: "fst (queryAdapters filterTest drv1 drv2) =
          Inr (stable_sort adapterLess (filteredAdapters filterTest (drvDevices drv2)))"
    if "drvStatus drv1 = VK_SUCCESS" and "drvStatus drv2 = VK_SUCCESS"
      and "length (drvDevices drv2) \<le> length (drvDevices drv1)"
    using that by (simp add: queryAdapters_Inr_iff)
  from calls thrown built show ?thesis by blast
qed

theorem queryAdapters_no_retry_witness:
  "queryAdapters testAdapter
     (exampleDriver [exampleDevice 1 VK_PHYSICAL_DEVICE_TYPE_DISCRETE_GPU,
                     exampleDevice 2 VK_PHYSICAL_DEVICE_TYPE_DISCRETE_GPU])
     (exampleDriver [exampleDevice 1 VK_PHYSICAL_DEVICE_TYPE_DISCRETE_GPU])
   = (Inr [new_DxvkAdapter (exampleDevice 1 VK_PHYSICAL_DEVICE_TYPE_DISCRETE_GPU)],
      [EnumeratePhysicalDevices None, EnumeratePhysicalDevices (Some 2),
       GetPhysicalDeviceProperties 1])"
proof -
  let ?d1 = "exampleDriver [exampleDevice 1 VK_PHYSICAL_DEVICE_TYPE_DISCRETE_GPU,
                     exampleDevice 2 VK_PHYSICAL_DEVICE_TYPE_DISCRETE_GPU]"
  let ?d2 = "exampleDriver [exampleDevice 1 VK_PHYSICAL_DEVICE_TYPE_DISCRETE_GPU]"
  have ok: "drvStatus ?d1 = VK_SUCCESS \<and> drvStatus ?d2 = VK_SUCCESS
      \<and> length (drvDevices ?d2) \<le> length (drvDevices ?d1)"
    by (simp add: exampleDriver_def)
  have log: "snd (queryAdapters testAdapter ?d1 ?d2) =
      [EnumeratePhysicalDevices None, EnumeratePhysicalDevices (Some 2),
       GetPhysicalDeviceProperties 1]"
    by (simp add: queryAdapters_def vector_data_def vkEnumeratePhysicalDevices_def
        exampleDriver_def filteredAdapters_def testAdapter_def exampleDevice_def)
  from queryAdapters_no_retry [of testAdapter ?d1 ?d2] ok
  have "fst (queryAdapters testAdapter ?d1 ?d2) =
      Inr [new_DxvkAdapter (exampleDevice 1 VK_PHYSICAL_DEVICE_TYPE_DISCRETE_GPU)]"
    by (simp add: exampleDriver_def filteredAdapters_def testAdapter_def exampleDevice_def)
  with log show ?thesis
    by (simp add: prod_eq_iff)
qed

text \<open>The empty vector: when the first call counts no device and the second call, a
  count query again, reports one, the first loop reads \<open>adapters[0]\<close> of the empty vector.
  No list is returned and no \<open>DxvkError\<close> is thrown.\<close>

lemma queryAdapters_reads_past_empty_vector:
  "queryAdapters testAdapter (exampleDriver [])
     (exampleDriver [exampleDevice 1 VK_PHYSICAL_DEVICE_TYPE_DISCRETE_GPU])
   = (Inl (OutOfBoundsRead 0), [EnumeratePhysicalDevices None, EnumeratePhysicalDevices None])"
  by (simp add: queryAdapters_def vector_data_def vkEnumeratePhysicalDevices_def
      exampleDriver_def)

section \<open>Adapter lookup returns the first match\<close>

lemma memcmp_zero_iff:
  "n \<le> length xs \<Longrightarrow> n \<le> length ys \<Longrightarrow> memcmp xs ys n = 0 \<longleftrightarrow> take n xs = take n ys"
proof (induction xs ys n rule: memcmp.induct)
  case (1 x xs y ys n)
  then show ?case by auto
qed auto

lemma findAdapterByLuid_find:
  "luidWellFormed adapters \<Longrightarrow> VK_LUID_SIZE \<le> length luid \<Longrightarrow>
   findAdapterByLuid adapters luid = List.find (spec_luidMatches luid) adapters"
proof (induction adapters)
  case Nil
  then show ?case by simp
next
  case (Cons a adapters)
  then have wf: "luidWellFormed adapters" and len: "length (deviceLUID (vk11 a)) = VK_LUID_SIZE"
    by (simp_all add: luidWellFormed_def)
  have "memcmp luid (deviceLUID (vk11 a)) VK_LUID_SIZE = 0
          \<longleftrightarrow> deviceLUID (vk11 a) = take VK_LUID_SIZE luid"
    using memcmp_zero_iff [of VK_LUID_SIZE luid "deviceLUID (vk11 a)"] Cons.prems(2) len
    by auto
  then show ?case
    using Cons.IH [OF wf Cons.prems(2)] by (simp add: spec_luidMatches_def)
qed

lemma ucast_u16_u32_eq: "(x :: u32) = ucast (v :: u16) \<longleftrightarrow> unat x = unat v"
proof -
  have "unat v < 2 ^ 32"
    using unsigned_less [of v, where ?'a = nat] by simp
  then have "unat (ucast v :: u32) = unat v"
    by (simp add: unsigned_ucast_eq take_bit_nat_eq_self_iff)
  then show ?thesis
    by (metis word_unat_eq_iff)
qed

lemma findAdapterByDeviceId_find:
  "findAdapterByDeviceId adapters v d = List.find (spec_deviceIdMatches v d) adapters"
  by (induction adapters) (simp_all add: spec_deviceIdMatches_def ucast_u16_u32_eq)

lemma find_firstMatch: "List.find P xs = Some a \<longleftrightarrow> firstMatch P xs a"
  by (auto simp: find_Some_iff firstMatch_def)

text \<open>C7: on an adapter collection whose identifiers have \<open>VK_LUID_SIZE\<close> bytes and a
  query buffer of at least that many bytes, lookup by identifier returns the first adapter,
  in the order of the collection, whose validity flag is set and whose identifier equals
  the first \<open>VK_LUID_SIZE\<close> bytes of the query, and nothing when there is no such adapter;
  an adapter it returns has its validity flag set. Lookup by vendor and device id returns
  the first adapter whose two stored fields have the values of the two arguments, and
  nothing when there is none.\<close>

theorem findAdapter_first_match:
  assumes "luidWellFormed (m_adapters inst)" and "VK_LUID_SIZE \<le> length luid"
  shows "(findAdapterByLuid (m_adapters inst) luid = None
            \<longleftrightarrow> (\<forall>a \<in> set (m_adapters inst). \<not> spec_luidMatches luid a))
       \<and> (\<forall>a. findAdapterByLuid (m_adapters inst) luid = Some a
            \<longleftrightarrow> firstMatch (spec_luidMatches luid) (m_adapters inst) a)
       \<and> (\<forall>a. findAdapterByLuid (m_adapters inst) luid = Some a
            \<longrightarrow> deviceLUIDValid (vk11 a) \<noteq> 0)
       \<and> (findAdapterByDeviceId (m_adapters inst) vendorId deviceId = None
            \<longleftrightarrow> (\<forall>a \<in> set (m_adapters inst). \<not> spec_deviceIdMatches vendorId deviceId a))
       \<and> (\<forall>a. findAdapterByDeviceId (m_adapters inst) vendorId deviceId = Some a
            \<longleftrightarrow> firstMatch (spec_deviceIdMatches vendorId deviceId) (m_adapters inst) a)"
proof -
  have luid: "findAdapterByLuid (m_adapters inst) luid
                = List.find (spec_luidMatches luid) (m_adapters inst)"
    using assms by (rule findAdapterByLuid_find)
  have valid: "deviceLUIDValid (vk11 a) \<noteq> 0"
    if "List.find (spec_luidMatches luid) (m_adapters inst) = Some a" for a
    using that by (auto simp: find_Some_iff spec_luidMatches_def)
  show ?thesis
    using valid
    by (auto simp: luid findAdapterByDeviceId_find find_firstMatch find_None_iff)
qed


theorem findAdapter_first_match_witness:
  "luidWellFormed lookupExample \<and> VK_LUID_SIZE \<le> length exampleLuid
   \<and> findAdapterByLuid lookupExample exampleLuid
       = Some (exampleAdapter 2 0x1002 0x5678 exampleLuid 1)
   \<and> firstMatch (spec_luidMatches exampleLuid) lookupExample
       (exampleAdapter 2 0x1002 0x5678 exampleLuid 1)
   \<and> findAdapterByDeviceId lookupExample 0x1002 0x5678
       = Some (exampleAdapter 2 0x1002 0x5678 exampleLuid 1)
   \<and> firstMatch (spec_deviceIdMatches 0x1002 0x5678) lookupExample
       (exampleAdapter 2 0x1002 0x5678 exampleLuid 1)
   \<and> findAdapterByLuid lookupExample [8, 7, 6, 5, 4, 3, 2, 1] = None
   \<and> findAdapterByDeviceId lookupExample 0x8086 0x5678 = None"
proof -
  let ?inst = "\<lparr> m_options = \<lparr> enableDebugUtils = False \<rparr>, m_extProviders = [],
                 m_extensions = new_DxvkInstanceExtensions, m_vki = Some 1,
                 m_adapters = lookupExample \<rparr>"
  have wf: "luidWellFormed (m_adapters ?inst)"
    by (simp add: luidWellFormed_def lookupExample_def exampleAdapter_def exampleLuid_def
        VK_LUID_SIZE_def)
  have len: "VK_LUID_SIZE \<le> length exampleLuid"
    by (simp add: exampleLuid_def VK_LUID_SIZE_def)
  have r1: "findAdapterByLuid lookupExample exampleLuid
       = Some (exampleAdapter 2 0x1002 0x5678 exampleLuid 1)"
    by (simp add: lookupExample_def exampleAdapter_def exampleLuid_def VK_LUID_SIZE_def
        eval_nat_numeral)
  have r2: "findAdapterByDeviceId lookupExample 0x1002 0x5678
       = Some (exampleAdapter 2 0x1002 0x5678 exampleLuid 1)"
    by (simp add: lookupExample_def exampleAdapter_def)
  have r3: "findAdapterByLuid lookupExample [8, 7, 6, 5, 4, 3, 2, 1] = None"
    by (simp add: lookupExample_def exampleAdapter_def exampleLuid_def VK_LUID_SIZE_def
        eval_nat_numeral)
  have r4: "findAdapterByDeviceId lookupExample 0x8086 0x5678 = None"
    by (simp add: lookupExample_def exampleAdapter_def)
  from findAdapter_first_match [OF wf len, of "0x1002" "0x5678"] r1 r2
  have "firstMatch (spec_luidMatches exampleLuid) lookupExample
          (exampleAdapter 2 0x1002 0x5678 exampleLuid 1)
      \<and> firstMatch (spec_deviceIdMatches 0x1002 0x5678) lookupExample
          (exampleAdapter 2 0x1002 0x5678 exampleLuid 1)"
    by auto
  with wf len r1 r2 r3 r4 show ?thesis by simp
qed

section \<open>Instance extensions\<close>

lemma debugOptIn_env:
  "debugOptIn w this \<longleftrightarrow>
     envVars w ''DXVK_PERF_EVENTS'' = Some ''1'' \<or> enableDebugUtils (m_options this)"
  by (simp add: debugOptIn_def getEnvVar_def split: option.split)

lemma names_distinct [simp]:
  "VK_EXT_DEBUG_UTILS_EXTENSION_NAME \<noteq> VK_KHR_SURFACE_EXTENSION_NAME"
  "VK_EXT_DEBUG_UTILS_EXTENSION_NAME \<noteq> VK_KHR_GET_SURFACE_CAPABILITIES_2_EXTENSION_NAME"
  "VK_KHR_SURFACE_EXTENSION_NAME \<noteq> VK_KHR_GET_SURFACE_CAPABILITIES_2_EXTENSION_NAME"
  "VK_KHR_SURFACE_EXTENSION_NAME \<noteq> VK_EXT_DEBUG_UTILS_EXTENSION_NAME"
  "VK_KHR_GET_SURFACE_CAPABILITIES_2_EXTENSION_NAME \<noteq> VK_EXT_DEBUG_UTILS_EXTENSION_NAME"
  "VK_KHR_GET_SURFACE_CAPABILITIES_2_EXTENSION_NAME \<noteq> VK_KHR_SURFACE_EXTENSION_NAME"
  by (simp_all add: VK_EXT_DEBUG_UTILS_EXTENSION_NAME_def VK_KHR_SURFACE_EXTENSION_NAME_def
      VK_KHR_GET_SURFACE_CAPABILITIES_2_EXTENSION_NAME_def)

lemma negotiate_mandatory:
  "fst (enableExtensions available [Ptr_khrGetSurfaceCapabilities2, Ptr_khrSurface]
          (new_DxvkInstanceExtensions, [])) = mandatoryAvailable available"
  "\<not> extEnabled (extDebugUtils (fst (snd
        (enableExtensions available [Ptr_khrGetSurfaceCapabilities2, Ptr_khrSurface]
          (new_DxvkInstanceExtensions, [])))))"
  by (cases "VK_KHR_GET_SURFACE_CAPABILITIES_2_EXTENSION_NAME \<in> set available";
      cases "VK_KHR_SURFACE_EXTENSION_NAME \<in> set available";
      simp add: new_DxvkInstanceExtensions_def mandatoryAvailable_def)+

lemma negotiate_with_debug:
  "fst (enableExtensions available
          [Ptr_khrGetSurfaceCapabilities2, Ptr_khrSurface, Ptr_extDebugUtils]
          (new_DxvkInstanceExtensions, [])) = mandatoryAvailable available"
  "extEnabled (extDebugUtils (fst (snd
        (enableExtensions available
          [Ptr_khrGetSurfaceCapabilities2, Ptr_khrSurface, Ptr_extDebugUtils]
          (new_DxvkInstanceExtensions, [])))))
     = (VK_EXT_DEBUG_UTILS_EXTENSION_NAME \<in> set available)"
  by (cases "VK_KHR_GET_SURFACE_CAPABILITIES_2_EXTENSION_NAME \<in> set available";
      cases "VK_KHR_SURFACE_EXTENSION_NAME \<in> set available";
      cases "VK_EXT_DEBUG_UTILS_EXTENSION_NAME \<in> set available";
      simp add: new_DxvkInstanceExtensions_def mandatoryAvailable_def)+

lemma negotiate:
  assumes "enableExtensions (availableInstanceExtensions w) (fst (insExtensionList w this))
     (new_DxvkInstanceExtensions, []) = (ok, exts, names)"
  shows "ok = mandatoryAvailable (availableInstanceExtensions w)"
    and "extEnabled (extDebugUtils exts) =
       (debugOptIn w this
        \<and> VK_EXT_DEBUG_UTILS_EXTENSION_NAME \<in> set (availableInstanceExtensions w))"
proof -
  show "ok = mandatoryAvailable (availableInstanceExtensions w)"
  proof (cases "debugOptIn w this")
    case True
    then show ?thesis
      using assms negotiate_with_debug(1) [of "availableInstanceExtensions w"]
      by (simp add: insExtensionList_def)
  next
    case False
    then show ?thesis
      using assms negotiate_mandatory(1) [of "availableInstanceExtensions w"]
      by (simp add: insExtensionList_def)
  qed
  show "extEnabled (extDebugUtils exts) =
       (debugOptIn w this
        \<and> VK_EXT_DEBUG_UTILS_EXTENSION_NAME \<in> set (availableInstanceExtensions w))"
  proof (cases "debugOptIn w this")
    case True
    then show ?thesis
      using assms negotiate_with_debug(2) [of "availableInstanceExtensions w"]
      by (simp add: insExtensionList_def)
  next
    case False
    then show ?thesis
      using assms negotiate_mandatory(2) [of "availableInstanceExtensions w"]
      by (simp add: insExtensionList_def)
  qed
qed

lemma errors_distinct [simp]:
  "negotiationFailed \<noteq> createFailed" "createFailed \<noteq> negotiationFailed"
  "libraryFailed \<noteq> negotiationFailed" "negotiationFailed \<noteq> enumerateFailed"
  by (simp_all add: negotiationFailed_def createFailed_def libraryFailed_def
      enumerateFailed_def)

lemma createInstance_cases:
  obtains (fail) "\<not> mandatoryAvailable (availableInstanceExtensions w)"
      "createInstance w this =
         (Inl negotiationFailed, this, snd (insExtensionList w this) @ [EnumInstanceExtensions])"
  | (ok) exts nameList where
      "mandatoryAvailable (availableInstanceExtensions w)"
      "extEnabled (extDebugUtils exts) =
         (debugOptIn w this
          \<and> VK_EXT_DEBUG_UTILS_EXTENSION_NAME \<in> set (availableInstanceExtensions w))"
      "createInstance w this =
         (if createInstanceStatus w \<noteq> VK_SUCCESS then Inl createFailed
          else Inr (createInstanceHandle w),
          this\<lparr>m_extensions := exts\<rparr>,
          snd (insExtensionList w this) @ [EnumInstanceExtensions]
          @ [LogInfo ''Enabled instance extensions:'']
          @ logNameList nameList @ [CreateVkInstance nameList])"
proof -
  obtain ptrs log1 where il: "insExtensionList w this = (ptrs, log1)"
    by (cases "insExtensionList w this")
  obtain ok exts names where en:
    "enableExtensions (availableInstanceExtensions w) ptrs (new_DxvkInstanceExtensions, [])
       = (ok, exts, names)"
    by (cases "enableExtensions (availableInstanceExtensions w) ptrs
                 (new_DxvkInstanceExtensions, [])")
  have en': "enableExtensions (availableInstanceExtensions w) (fst (insExtensionList w this))
     (new_DxvkInstanceExtensions, []) = (ok, exts, names)"
    using il en by simp
  note n = negotiate [OF en']
  show thesis
  proof (cases ok)
    case False
    then show ?thesis
      using fail il en n(1) by (simp add: createInstance_def)
  next
    case True
    then show ?thesis
      using ok [of exts "toNameList (fold (\<lambda>provider names.
                  nameSet_merge names (getInstanceExtensions provider))
                (m_extProviders this) names)"] il en n
      by (simp add: createInstance_def Let_def)
  qed
qed


lemma filter_isWarning_logNameList [simp]: "filter isWarning (logNameList names) = []"
  by (simp add: logNameList_def filter_empty_conv)

lemma debugWorld_optIn: "debugOptIn (debugWorld available) this"
  by (simp add: debugOptIn_def getEnvVar_def debugWorld_def)

lemma debugWorld_available [simp]:
  "availableInstanceExtensions (debugWorld available) = available"
  by (simp add: debugWorld_def)

text \<open>C10: the debug/instrumentation extension is requested exactly when the environment
  variable \<open>DXVK_PERF_EVENTS\<close> is set to the string "1" or the resolved configuration flag
  is set; every other value of the variable, and the variable not being set, leaves the
  decision to the configuration flag.\<close>

theorem debugOptIn_exactly_1:
  "(debugOptIn w this \<longleftrightarrow>
      envVars w ''DXVK_PERF_EVENTS'' = Some ''1'' \<or> enableDebugUtils (m_options this))
   \<and> (Ptr_extDebugUtils \<in> set (fst (insExtensionList w this)) \<longleftrightarrow>
      envVars w ''DXVK_PERF_EVENTS'' = Some ''1'' \<or> enableDebugUtils (m_options this))"
  by (simp add: insExtensionList_def debugOptIn_env)

theorem debugOptIn_exactly_1_witness:
  "\<not> debugOptIn (exampleWorld\<lparr>envVars := [''DXVK_PERF_EVENTS'' \<mapsto> ''true'']\<rparr>) exampleInstance
   \<and> \<not> debugOptIn (exampleWorld\<lparr>envVars := [''DXVK_PERF_EVENTS'' \<mapsto> ''on'']\<rparr>) exampleInstance
   \<and> \<not> debugOptIn (exampleWorld\<lparr>envVars := Map.empty\<rparr>) exampleInstance
   \<and> debugOptIn (exampleWorld\<lparr>envVars := [''DXVK_PERF_EVENTS'' \<mapsto> ''1'']\<rparr>) exampleInstance
   \<and> debugOptIn (exampleWorld\<lparr>envVars := [''DXVK_PERF_EVENTS'' \<mapsto> ''on'']\<rparr>)
        (exampleInstance\<lparr>m_options := \<lparr> enableDebugUtils = True \<rparr>\<rparr>)"
  using debugOptIn_exactly_1 [of "exampleWorld\<lparr>envVars := [''DXVK_PERF_EVENTS'' \<mapsto> ''true'']\<rparr>" exampleInstance]
    debugOptIn_exactly_1 [of "exampleWorld\<lparr>envVars := [''DXVK_PERF_EVENTS'' \<mapsto> ''on'']\<rparr>" exampleInstance]
    debugOptIn_exactly_1 [of "exampleWorld\<lparr>envVars := Map.empty\<rparr>" exampleInstance]
    debugOptIn_exactly_1 [of "exampleWorld\<lparr>envVars := [''DXVK_PERF_EVENTS'' \<mapsto> ''1'']\<rparr>" exampleInstance]
    debugOptIn_exactly_1 [of "exampleWorld\<lparr>envVars := [''DXVK_PERF_EVENTS'' \<mapsto> ''on'']\<rparr>"
       "exampleInstance\<lparr>m_options := \<lparr> enableDebugUtils = True \<rparr>\<rparr>"]
  by (simp add: exampleInstance_def)

text \<open>C3: negotiation fails exactly when a mandatory extension is unavailable, whatever
  the availability of \<open>VK_EXT_debug_utils\<close>; when it does not fail, the slot of
  \<open>VK_EXT_debug_utils\<close> in the instance's extension record is enabled if and only if the
  opt-in is active and the driver reports the extension; the same holds for the record of
  every instance the constructor produces.\<close>

theorem createInstance_debug_utils:
  "(fst (createInstance w this) = Inl negotiationFailed
      \<longleftrightarrow> \<not> mandatoryAvailable (availableInstanceExtensions w))
   \<and> (mandatoryAvailable (availableInstanceExtensions w) \<longrightarrow>
        extEnabled (extDebugUtils (m_extensions (fst (snd (createInstance w this)))))
          = (debugOptIn w this
             \<and> VK_EXT_DEBUG_UTILS_EXTENSION_NAME \<in> set (availableInstanceExtensions w)))
   \<and> (\<forall>inst. fst (DxvkInstance_ctor w) = Inr inst \<longrightarrow>
        extEnabled (extDebugUtils (m_extensions inst))
          = ((envVars w ''DXVK_PERF_EVENTS'' = Some ''1'' \<or> enableDebugUtils (resolvedOptions w))
             \<and> VK_EXT_DEBUG_UTILS_EXTENSION_NAME \<in> set (availableInstanceExtensions w)))"
proof -
  have a: "fst (createInstance w this) = Inl negotiationFailed
      \<longleftrightarrow> \<not> mandatoryAvailable (availableInstanceExtensions w)" for this
    by (cases rule: createInstance_cases [of w this]) simp_all
  have b: "extEnabled (extDebugUtils (m_extensions (fst (snd (createInstance w this)))))
          = (debugOptIn w this
             \<and> VK_EXT_DEBUG_UTILS_EXTENSION_NAME \<in> set (availableInstanceExtensions w))"
    if "mandatoryAvailable (availableInstanceExtensions w)" for this
    using that by (cases rule: createInstance_cases [of w this]) simp_all
  have c: "extEnabled (extDebugUtils (m_extensions inst))
          = ((envVars w ''DXVK_PERF_EVENTS'' = Some ''1'' \<or> enableDebugUtils (resolvedOptions w))
             \<and> VK_EXT_DEBUG_UTILS_EXTENSION_NAME \<in> set (availableInstanceExtensions w))"
    if ok: "fst (DxvkInstance_ctor w) = Inr inst" for inst
  proof -
    let ?init = "DxvkInstance_init w"
    from ok have ext: "m_extensions inst = m_extensions (fst (snd (createInstance w ?init)))"
      and succ: "fst (createInstance w ?init) \<noteq> Inl negotiationFailed"
      by (auto simp: DxvkInstance_ctor_def Let_def split: if_splits prod.splits sum.splits)
    from succ have "mandatoryAvailable (availableInstanceExtensions w)"
      using a [of ?init] by simp
    from b [OF this, of ?init] show ?thesis
      by (simp add: ext debugOptIn_env DxvkInstance_init_def)
  qed
  from a b c show ?thesis by blast
qed

theorem createInstance_debug_utils_witness:
  "mandatoryAvailable (availableInstanceExtensions (debugWorld
       [VK_KHR_SURFACE_EXTENSION_NAME, VK_KHR_GET_SURFACE_CAPABILITIES_2_EXTENSION_NAME,
        VK_EXT_DEBUG_UTILS_EXTENSION_NAME]))
   \<and> extEnabled (extDebugUtils (m_extensions (fst (snd (createInstance (debugWorld
       [VK_KHR_SURFACE_EXTENSION_NAME, VK_KHR_GET_SURFACE_CAPABILITIES_2_EXTENSION_NAME,
        VK_EXT_DEBUG_UTILS_EXTENSION_NAME]) exampleInstance)))))
   \<and> (case fst (DxvkInstance_ctor (debugWorld
       [VK_KHR_SURFACE_EXTENSION_NAME, VK_KHR_GET_SURFACE_CAPABILITIES_2_EXTENSION_NAME,
        VK_EXT_DEBUG_UTILS_EXTENSION_NAME])) of
         Inl e \<Rightarrow> False
       | Inr inst \<Rightarrow> extEnabled (extDebugUtils (m_extensions inst)))
   \<and> mandatoryAvailable (availableInstanceExtensions (debugWorld
       [VK_KHR_SURFACE_EXTENSION_NAME, VK_KHR_GET_SURFACE_CAPABILITIES_2_EXTENSION_NAME]))
   \<and> \<not> extEnabled (extDebugUtils (m_extensions (fst (snd (createInstance (debugWorld
       [VK_KHR_SURFACE_EXTENSION_NAME, VK_KHR_GET_SURFACE_CAPABILITIES_2_EXTENSION_NAME])
       exampleInstance)))))
   \<and> fst (createInstance (debugWorld
       [VK_KHR_SURFACE_EXTENSION_NAME, VK_KHR_GET_SURFACE_CAPABILITIES_2_EXTENSION_NAME])
       exampleInstance) \<noteq> Inl negotiationFailed"
proof -
  let ?all = "[VK_KHR_SURFACE_EXTENSION_NAME, VK_KHR_GET_SURFACE_CAPABILITIES_2_EXTENSION_NAME,
        VK_EXT_DEBUG_UTILS_EXTENSION_NAME]"
  let ?mand = "[VK_KHR_SURFACE_EXTENSION_NAME, VK_KHR_GET_SURFACE_CAPABILITIES_2_EXTENSION_NAME]"
  have m1: "mandatoryAvailable (availableInstanceExtensions (debugWorld ?all))"
    by (simp add: mandatoryAvailable_def)
  have m2: "mandatoryAvailable (availableInstanceExtensions (debugWorld ?mand))"
    by (simp add: mandatoryAvailable_def)
  have run: "\<exists>inst. fst (DxvkInstance_ctor (debugWorld ?all)) = Inr inst"
    by (simp add: DxvkInstance_ctor_def DxvkInstance_init_def createInstance_def
        insExtensionList_def debugWorld_optIn new_DxvkInstanceExtensions_def Let_def
        queryAdapters_def vector_data_def vkEnumeratePhysicalDevices_def)
       (simp add: debugWorld_def exampleWorld_def exampleDriver_def)
  then obtain inst where inst: "fst (DxvkInstance_ctor (debugWorld ?all)) = Inr inst" ..
  from createInstance_debug_utils [of "debugWorld ?all" exampleInstance] m1 inst
  have "extEnabled (extDebugUtils (m_extensions (fst (snd (createInstance (debugWorld ?all)
          exampleInstance)))))
      \<and> extEnabled (extDebugUtils (m_extensions inst))"
    by (simp add: debugWorld_optIn) (simp add: debugWorld_def)
  moreover
  from createInstance_debug_utils [of "debugWorld ?mand" exampleInstance] m2
  have "\<not> extEnabled (extDebugUtils (m_extensions (fst (snd (createInstance (debugWorld ?mand)
          exampleInstance)))))
      \<and> fst (createInstance (debugWorld ?mand) exampleInstance) \<noteq> Inl negotiationFailed"
    by simp
  ultimately show ?thesis
    using m1 m2 inst by simp
qed

text \<open>C6: when a mandatory instance extension is unavailable, \<open>createInstance\<close> throws,
  the instance's extension record is left as it was, and the constructor produces no
  instance.\<close>

theorem createInstance_atomic:
  assumes "\<not> mandatoryAvailable (availableInstanceExtensions w)"
  shows "fst (createInstance w this) = Inl negotiationFailed
       \<and> fst (snd (createInstance w this)) = this
       \<and> (\<forall>inst. fst (DxvkInstance_ctor w) \<noteq> Inr inst)
       \<and> (libraryValid w \<longrightarrow> fst (DxvkInstance_ctor w) = Inl negotiationFailed)"
proof -
  have f: "createInstance w this =
         (Inl negotiationFailed, this, snd (insExtensionList w this) @ [EnumInstanceExtensions])"
    for this
    using assms by (cases rule: createInstance_cases [of w this]) simp_all
  show ?thesis
    by (simp add: f DxvkInstance_ctor_def Let_def)
qed

theorem createInstance_atomic_witness:
  "\<not> mandatoryAvailable (availableInstanceExtensions (debugWorld
        [VK_KHR_SURFACE_EXTENSION_NAME, VK_EXT_DEBUG_UTILS_EXTENSION_NAME]))
   \<and> fst (createInstance (debugWorld
        [VK_KHR_SURFACE_EXTENSION_NAME, VK_EXT_DEBUG_UTILS_EXTENSION_NAME]) exampleInstance)
       = Inl negotiationFailed
   \<and> fst (snd (createInstance (debugWorld
        [VK_KHR_SURFACE_EXTENSION_NAME, VK_EXT_DEBUG_UTILS_EXTENSION_NAME]) exampleInstance))
       = exampleInstance
   \<and> fst (DxvkInstance_ctor (debugWorld
        [VK_KHR_SURFACE_EXTENSION_NAME, VK_EXT_DEBUG_UTILS_EXTENSION_NAME]))
       = Inl negotiationFailed"
proof -
  let ?w = "debugWorld [VK_KHR_SURFACE_EXTENSION_NAME, VK_EXT_DEBUG_UTILS_EXTENSION_NAME]"
  have m: "\<not> mandatoryAvailable (availableInstanceExtensions ?w)"
    by (simp add: mandatoryAvailable_def)
  have lib: "libraryValid ?w"
    by (simp add: debugWorld_def exampleWorld_def)
  from createInstance_atomic [OF m, of exampleInstance] m lib show ?thesis
    by simp
qed

text \<open>C9, as the claim states it, fails: with the opt-in active and \<open>VK_EXT_debug_utils\<close>
  not reported by the driver, the warning is logged all the same, and the extension is
  not enabled.\<close>

theorem createInstance_warning_counterexample:
  "debugOptIn (debugWorld
       [VK_KHR_SURFACE_EXTENSION_NAME, VK_KHR_GET_SURFACE_CAPABILITIES_2_EXTENSION_NAME])
     exampleInstance
   \<and> VK_EXT_DEBUG_UTILS_EXTENSION_NAME \<notin> set (availableInstanceExtensions (debugWorld
       [VK_KHR_SURFACE_EXTENSION_NAME, VK_KHR_GET_SURFACE_CAPABILITIES_2_EXTENSION_NAME]))
   \<and> createInstance (debugWorld
       [VK_KHR_SURFACE_EXTENSION_NAME, VK_KHR_GET_SURFACE_CAPABILITIES_2_EXTENSION_NAME])
       exampleInstance
     = (Inr 1,
        exampleInstance\<lparr> m_extensions :=
          \<lparr> extDebugUtils =
              \<lparr> extName = VK_EXT_DEBUG_UTILS_EXTENSION_NAME,
                extRequired = False, extEnabled = False \<rparr>,
            khrGetSurfaceCapabilities2 =
              \<lparr> extName = VK_KHR_GET_SURFACE_CAPABILITIES_2_EXTENSION_NAME,
                extRequired = True, extEnabled = True \<rparr>,
            khrSurface =
              \<lparr> extName = VK_KHR_SURFACE_EXTENSION_NAME,
                extRequired = True, extEnabled = True \<rparr> \<rparr> \<rparr>,
        [LogWarn debugUtilsWarning, EnumInstanceExtensions,
         LogInfo ''Enabled instance extensions:'',
         LogInfo (''  '' @ VK_KHR_SURFACE_EXTENSION_NAME),
         LogInfo (''  '' @ VK_KHR_GET_SURFACE_CAPABILITIES_2_EXTENSION_NAME),
         CreateVkInstance
           [VK_KHR_SURFACE_EXTENSION_NAME, VK_KHR_GET_SURFACE_CAPABILITIES_2_EXTENSION_NAME]])"
  by (simp add: debugWorld_optIn createInstance_def insExtensionList_def
      new_DxvkInstanceExtensions_def Let_def logNameList_def toNameList_def)
     (simp add: debugWorld_def exampleWorld_def exampleInstance_def)

text \<open>C9, amended: the performance warning is emitted exactly when the opt-in is active,
  whether or not the driver reports the extension: it is then the first event of
  \<open>createInstance\<close>, before the available extensions are asked for, and no other warning
  follows; without the opt-in no warning is logged. When the extension is requested and the
  driver does not report it, negotiation fails only if a mandatory extension is missing,
  and when negotiation succeeds the extension is not enabled in the instance's record.\<close>

theorem createInstance_warns_on_opt_in:
  "(\<exists>rest. snd (snd (createInstance w this)) =
        (if debugOptIn w this then [LogWarn debugUtilsWarning] else [])
        @ EnumInstanceExtensions # rest
      \<and> (\<forall>e \<in> set rest. \<not> isWarning e \<and> e \<noteq> EnumInstanceExtensions))
   \<and> filter isWarning (snd (snd (createInstance w this)))
       = (if debugOptIn w this then [LogWarn debugUtilsWarning] else [])
   \<and> (debugOptIn w this
        \<and> VK_EXT_DEBUG_UTILS_EXTENSION_NAME \<notin> set (availableInstanceExtensions w) \<longrightarrow>
        (fst (createInstance w this) = Inl negotiationFailed
           \<longleftrightarrow> \<not> mandatoryAvailable (availableInstanceExtensions w))
        \<and> (mandatoryAvailable (availableInstanceExtensions w) \<longrightarrow>
             \<not> extEnabled (extDebugUtils
                  (m_extensions (fst (snd (createInstance w this)))))))"
proof (cases rule: createInstance_cases [of w this])
  case fail
  have "snd (snd (createInstance w this)) =
        (if debugOptIn w this then [LogWarn debugUtilsWarning] else [])
        @ EnumInstanceExtensions # []"
    by (simp add: fail insExtensionList_def)
  then have "\<exists>rest. snd (snd (createInstance w this)) =
        (if debugOptIn w this then [LogWarn debugUtilsWarning] else [])
        @ EnumInstanceExtensions # rest
      \<and> (\<forall>e \<in> set rest. \<not> isWarning e \<and> e \<noteq> EnumInstanceExtensions)"
    by (intro exI [of _ "[]"]) simp
  then show ?thesis
    using fail by (simp add: insExtensionList_def)
next
  case (ok exts nameList)
  let ?rest = "[LogInfo ''Enabled instance extensions:'']
        @ logNameList nameList @ [CreateVkInstance nameList]"
  have "snd (snd (createInstance w this)) =
        (if debugOptIn w this then [LogWarn debugUtilsWarning] else [])
        @ EnumInstanceExtensions # ?rest"
    by (simp add: ok insExtensionList_def)
  moreover have "\<forall>e \<in> set ?rest. \<not> isWarning e \<and> e \<noteq> EnumInstanceExtensions"
    by (auto simp: logNameList_def)
  ultimately have "\<exists>rest. snd (snd (createInstance w this)) =
        (if debugOptIn w this then [LogWarn debugUtilsWarning] else [])
        @ EnumInstanceExtensions # rest
      \<and> (\<forall>e \<in> set rest. \<not> isWarning e \<and> e \<noteq> EnumInstanceExtensions)"
    by (intro exI [of _ ?rest]) simp
  then show ?thesis
    using ok by (simp add: insExtensionList_def)
qed

theorem createInstance_warns_on_opt_in_witness:
  "debugOptIn (debugWorld
       [VK_KHR_SURFACE_EXTENSION_NAME, VK_KHR_GET_SURFACE_CAPABILITIES_2_EXTENSION_NAME])
     exampleInstance
   \<and> VK_EXT_DEBUG_UTILS_EXTENSION_NAME \<notin> set (availableInstanceExtensions (debugWorld
       [VK_KHR_SURFACE_EXTENSION_NAME, VK_KHR_GET_SURFACE_CAPABILITIES_2_EXTENSION_NAME]))
   \<and> mandatoryAvailable (availableInstanceExtensions (debugWorld
       [VK_KHR_SURFACE_EXTENSION_NAME, VK_KHR_GET_SURFACE_CAPABILITIES_2_EXTENSION_NAME]))
   \<and> (\<exists>rest. snd (snd (createInstance (debugWorld
       [VK_KHR_SURFACE_EXTENSION_NAME, VK_KHR_GET_SURFACE_CAPABILITIES_2_EXTENSION_NAME])
       exampleInstance))
         = [LogWarn debugUtilsWarning] @ EnumInstanceExtensions # rest
       \<and> (\<forall>e \<in> set rest. \<not> isWarning e \<and> e \<noteq> EnumInstanceExtensions))
   \<and> fst (createInstance (debugWorld
       [VK_KHR_SURFACE_EXTENSION_NAME, VK_KHR_GET_SURFACE_CAPABILITIES_2_EXTENSION_NAME])
       exampleInstance) \<noteq> Inl negotiationFailed
   \<and> \<not> extEnabled (extDebugUtils (m_extensions (fst (snd (createInstance (debugWorld
       [VK_KHR_SURFACE_EXTENSION_NAME, VK_KHR_GET_SURFACE_CAPABILITIES_2_EXTENSION_NAME])
       exampleInstance)))))
   \<and> filter isWarning (snd (snd (createInstance exampleWorld exampleInstance))) = []"
proof -
  let ?w = "debugWorld
       [VK_KHR_SURFACE_EXTENSION_NAME, VK_KHR_GET_SURFACE_CAPABILITIES_2_EXTENSION_NAME]"
  have optIn: "debugOptIn ?w exampleInstance"
    by (rule debugWorld_optIn)
  have unavailable:
    "VK_EXT_DEBUG_UTILS_EXTENSION_NAME \<notin> set (availableInstanceExtensions ?w)"
    by simp
  have mandatory: "mandatoryAvailable (availableInstanceExtensions ?w)"
    by (simp add: mandatoryAvailable_def)
  have noOptIn: "\<not> debugOptIn exampleWorld exampleInstance"
    by (simp add: debugOptIn_def getEnvVar_def exampleWorld_def exampleInstance_def)
  from createInstance_warns_on_opt_in [of ?w exampleInstance] optIn unavailable mandatory
  have "(\<exists>rest. snd (snd (createInstance ?w exampleInstance))
         = [LogWarn debugUtilsWarning] @ EnumInstanceExtensions # rest
       \<and> (\<forall>e \<in> set rest. \<not> isWarning e \<and> e \<noteq> EnumInstanceExtensions))
     \<and> fst (createInstance ?w exampleInstance) \<noteq> Inl negotiationFailed
     \<and> \<not> extEnabled (extDebugUtils
           (m_extensions (fst (snd (createInstance ?w exampleInstance)))))"
    by simp
  moreover from createInstance_warns_on_opt_in [of exampleWorld exampleInstance] noOptIn
  have "filter isWarning (snd (snd (createInstance exampleWorld exampleInstance))) = []"
    by simp
  ultimately show ?thesis
    using optIn unavailable mandatory by blast
qed

section \<open>Order of the constructor's steps\<close>

lemma createInstance_log_clean:
  "\<forall>e \<in> set (snd (snd (createInstance w this))).
     \<not> isInitInstanceExtensions e \<and> e \<noteq> LoadLibrary"
  by (cases rule: createInstance_cases [of w this])
     (auto simp: insExtensionList_def logNameList_def)

lemma queryAdapters_log_clean:
  "\<forall>e \<in> set (snd (queryAdapters filterTest drv1 drv2)).
     \<not> isInitInstanceExtensions e \<and> e \<noteq> LoadLibrary"
  by (auto simp: queryAdapters_def vector_data_def vkEnumeratePhysicalDevices_def Let_def
      split: if_splits option.splits)

lemma ctorPrologue_clean:
  "\<forall>e \<in> set (ctorPrologue w). \<not> isInitInstanceExtensions e \<and> e \<noteq> LoadLibrary"
  by (auto simp: ctorPrologue_def)

text \<open>C4, as the claim states it, fails: in a construction that succeeds, the provider's
  instance-level initialization is the event just before the library is loaded.\<close>

theorem ctor_library_first_counterexample:
  "snd (DxvkInstance_ctor exampleWorld) =
     [LogInfo ''Game: game.exe'', LogInfo ''DXVK: v2.0'', ConfigLogOptions,
      LogInfo ''Built-in extension providers:'', LogInfo ''  Platform WSI'',
      InitInstanceExtensions ''Platform WSI'',
      LoadLibrary,
      EnumInstanceExtensions, LogInfo ''Enabled instance extensions:'',
      LogInfo ''  VK_KHR_surface'', LogInfo ''  VK_KHR_get_surface_capabilities2'',
      CreateVkInstance [''VK_KHR_surface'', ''VK_KHR_get_surface_capabilities2''],
      EnumeratePhysicalDevices None, EnumeratePhysicalDevices (Some 1),
      GetPhysicalDeviceProperties 1,
      InitDeviceExtensions ''Platform WSI'']"
  by (simp add: DxvkInstance_ctor_def DxvkInstance_init_def createInstance_def
      insExtensionList_def debugOptIn_def getEnvVar_def new_DxvkInstanceExtensions_def
      Let_def queryAdapters_def vector_data_def vkEnumeratePhysicalDevices_def exampleWorld_def
      exampleDriver_def exampleProvider_def registeredProviders_def ctorPrologue_def
      logNameList_def toNameList_def nameSet_merge_def filteredAdapters_def testAdapter_def
      exampleDevice_def
      VK_KHR_SURFACE_EXTENSION_NAME_def VK_KHR_GET_SURFACE_CAPABILITIES_2_EXTENSION_NAME_def
      VK_EXT_DEBUG_UTILS_EXTENSION_NAME_def)

text \<open>C4, amended: during construction every registered provider is asked, in registration
  order, to perform its instance-level initialization, and only after the last of them is
  the driver's entry-point library loaded; no such request and no library load happens
  before or after that block of events.\<close>

theorem ctor_providers_then_library:
  "\<exists>post. snd (DxvkInstance_ctor w) =
       ctorPrologue w
       @ map (\<lambda>provider. InitInstanceExtensions (getName provider)) (registeredProviders w)
       @ [LoadLibrary] @ post
     \<and> (\<forall>e \<in> set (ctorPrologue w) \<union> set post.
          \<not> isInitInstanceExtensions e \<and> e \<noteq> LoadLibrary)"
proof -
  let ?init = "DxvkInstance_init w"
  obtain r1 this2 log2 where ci: "createInstance w ?init = (r1, this2, log2)"
    by (cases "createInstance w ?init")
  have c2: "\<forall>e \<in> set log2. \<not> isInitInstanceExtensions e \<and> e \<noteq> LoadLibrary"
    using createInstance_log_clean [of w ?init] ci by simp
  obtain r3 log3 where qa: "queryAdapters testAdapter (enumState1 w) (enumState2 w) = (r3, log3)"
    by (cases "queryAdapters testAdapter (enumState1 w) (enumState2 w)")
  have c3: "\<forall>e \<in> set log3. \<not> isInitInstanceExtensions e \<and> e \<noteq> LoadLibrary"
    using queryAdapters_log_clean [of testAdapter "enumState1 w" "enumState2 w"] qa by simp
  have providers: "m_extProviders ?init = registeredProviders w"
    by (simp add: DxvkInstance_init_def)
  show ?thesis
    using c2 c3 ctorPrologue_clean [of w]
    by (cases r1; cases r3)
       (auto simp: DxvkInstance_ctor_def Let_def ci qa providers)
qed


theorem ctor_providers_then_library_witness:
  "\<exists>post. snd (DxvkInstance_ctor (exampleWorld\<lparr>isWin32 := True\<rparr>)) =
       ctorPrologue (exampleWorld\<lparr>isWin32 := True\<rparr>)
       @ [InitInstanceExtensions ''Platform WSI'', InitInstanceExtensions ''OpenVR'',
          InitInstanceExtensions ''OpenXR'']
       @ [LoadLibrary] @ post
     \<and> (\<forall>e \<in> set (ctorPrologue (exampleWorld\<lparr>isWin32 := True\<rparr>)) \<union> set post.
          \<not> isInitInstanceExtensions e \<and> e \<noteq> LoadLibrary)"
  using ctor_providers_then_library [of "exampleWorld\<lparr>isWin32 := True\<rparr>"]
  by (simp add: registeredProviders_def exampleWorld_def exampleProvider_def)

end
